theory Spec2Isabelle
  imports Complex_Main
begin

section \<open>Data model (shared/schema.ts)\<close>

text \<open>
  The tables of \<^verbatim>\<open>shared/schema.ts\<close> are modelled as records, one field per column.
  Field names carry a prefix per record (\<open>c_\<close> for a campaign row, \<open>l_\<close> for a lead
  row, \<open>u_\<close> for a user row), since the column names \<open>id\<close>, \<open>userId\<close>,
  \<open>createdAt\<close> ... repeat across tables and \<open>id\<close> is a HOL constant.
  A column without \<^verbatim>\<open>notNull()\<close> is an option (None is SQL NULL); a
  \<^verbatim>\<open>decimal\<close> column is a string, as the query builder returns it; a timestamp
  is a number of milliseconds.
\<close>

type_synonym timestamp = int

record User =
  u_id :: string
  u_email :: "string option"
  u_firstName :: "string option"
  u_lastName :: "string option"
  u_profileImageUrl :: "string option"
  u_createdAt :: "timestamp option"
  u_updatedAt :: "timestamp option"

record Campaign =
  c_id :: string
  c_userId :: string
  c_name :: string
  c_businessCategory :: string
  c_location :: string
  c_radius :: int
  c_scrapingMode :: string
  c_pageLimit :: "int option"
  c_delay :: "string option"
  c_status :: string
  c_progress :: "int option"
  c_totalPages :: "int option"
  c_leadsFound :: "int option"
  c_createdAt :: "timestamp option"
  c_updatedAt :: "timestamp option"

record Lead =
  l_id :: string
  l_campaignId :: string
  l_businessName :: string
  l_category :: "string option"
  l_phone :: "string option"
  l_email :: "string option"
  l_website :: "string option"
  l_address :: "string option"
  l_city :: "string option"
  l_state :: "string option"
  l_zipCode :: "string option"
  l_rating :: "string option"
  l_reviewCount :: "int option"
  l_isValidated :: "bool option"
  l_isDuplicate :: "bool option"
  l_notes :: "string option"
  l_tags :: "string option"
  l_contactStatus :: "string option"
  l_createdAt :: "timestamp option"
  l_updatedAt :: "timestamp option"

record File =
  f_id :: string
  f_userId :: string
  f_filename :: string
  f_originalName :: string
  f_fileType :: string
  f_fileSize :: int
  f_filePath :: string
  f_uploadedAt :: "timestamp option"

text \<open>
  \<^verbatim>\<open>Partial<Campaign>\<close> and \<^verbatim>\<open>Partial<Lead>\<close>: every property may be absent
  (None); a present property carries a value of the column's type, so a nullable column
  is an option of an option. A string is any sequence of characters, the character with
  code 0 among them, and an integer is any integer. For the two timestamps the declared
  type is \<^verbatim>\<open>Date\<close>, but a value that comes from a request body is never a \<^verbatim>\<open>Date\<close>
  (JSON has none): \<open>NotADate\<close> is such a value.
\<close>

datatype date_value = Date timestamp | NotADate

record PartialCampaign =
  pc_id :: "string option"
  pc_userId :: "string option"
  pc_name :: "string option"
  pc_businessCategory :: "string option"
  pc_location :: "string option"
  pc_radius :: "int option"
  pc_scrapingMode :: "string option"
  pc_pageLimit :: "int option option"
  pc_delay :: "string option option"
  pc_status :: "string option"
  pc_progress :: "int option option"
  pc_totalPages :: "int option option"
  pc_leadsFound :: "int option option"
  pc_createdAt :: "date_value option option"
  pc_updatedAt :: "date_value option option"

record PartialLead =
  pl_id :: "string option"
  pl_campaignId :: "string option"
  pl_businessName :: "string option"
  pl_category :: "string option option"
  pl_phone :: "string option option"
  pl_email :: "string option option"
  pl_website :: "string option option"
  pl_address :: "string option option"
  pl_city :: "string option option"
  pl_state :: "string option option"
  pl_zipCode :: "string option option"
  pl_rating :: "string option option"
  pl_reviewCount :: "int option option"
  pl_isValidated :: "bool option option"
  pl_isDuplicate :: "bool option option"
  pl_notes :: "string option option"
  pl_tags :: "string option option"
  pl_contactStatus :: "string option option"
  pl_createdAt :: "date_value option option"
  pl_updatedAt :: "date_value option option"

text \<open>
  \<^verbatim>\<open>InsertCampaign\<close>, \<^verbatim>\<open>InsertLead\<close>, \<^verbatim>\<open>InsertFile\<close>: the insert
  schemas with the generated columns omitted. A column that has a declared default
  distinguishes an absent property (None: the default applies) from an explicit value;
  for a nullable column without default, absent and null both store NULL.
\<close>

record InsertCampaign =
  ic_name :: string
  ic_businessCategory :: string
  ic_location :: string
  ic_radius :: int
  ic_scrapingMode :: string
  ic_pageLimit :: "int option option"
  ic_delay :: "string option option"
  ic_status :: "string option"
  ic_progress :: "int option option"
  ic_totalPages :: "int option option"
  ic_leadsFound :: "int option option"

record InsertLead =
  il_campaignId :: string
  il_businessName :: string
  il_category :: "string option"
  il_phone :: "string option"
  il_email :: "string option"
  il_website :: "string option"
  il_address :: "string option"
  il_city :: "string option"
  il_state :: "string option"
  il_zipCode :: "string option"
  il_rating :: "string option"
  il_reviewCount :: "int option"
  il_isValidated :: "bool option option"
  il_isDuplicate :: "bool option option"
  il_notes :: "string option"
  il_tags :: "string option"
  il_contactStatus :: "string option option"

record InsertFile =
  if_filename :: string
  if_originalName :: string
  if_fileType :: string
  if_fileSize :: int
  if_filePath :: string

section \<open>The database\<close>

text \<open>
  The state of the database: the rows of each table in insertion order, and whether the
  connection of \<^verbatim>\<open>server/db\<close> works. A statement on a broken connection throws.
  The constraints are the ones the schema declares: primary keys, and the foreign keys
  \<^verbatim>\<open>campaigns.user_id \<rightarrow> users.id\<close>, \<^verbatim>\<open>leads.campaign_id \<rightarrow> campaigns.id\<close>,
  \<^verbatim>\<open>files.user_id \<rightarrow> users.id\<close>. No \<^verbatim>\<open>onDelete\<close> or \<^verbatim>\<open>onUpdate\<close> action
  is declared, so each foreign key is NO ACTION: a statement that would leave a
  referencing row without its referenced row is rejected.
  The database also decides which values a column takes. For a \<^verbatim>\<open>decimal\<close> column
  that is PostgreSQL's input function of \<^verbatim>\<open>numeric(precision, scale)\<close>, which is not
  part of the sources: \<open>db_numeric_in d precision scale t\<close> is None when the text \<open>t\<close>
  is rejected, and otherwise the text that the column then holds.
\<close>

record db =
  db_connected :: bool
  db_numeric_in :: "nat \<Rightarrow> nat \<Rightarrow> string \<Rightarrow> string option"
  db_users :: "User list"
  db_campaigns :: "Campaign list"
  db_leads :: "Lead list"
  db_files :: "File list"

datatype error =
  ConnectionError
  | UniqueViolation
  | ForeignKeyViolation
  | DataException
  | TypeError
  | SyntaxError
  | ZodError

text \<open>\<open>assign\<close> is one column of an SQL SET clause: an absent property keeps the old value.\<close>

fun assign :: "'a option \<Rightarrow> 'a \<Rightarrow> 'a" where
  "assign None old = old"
| "assign (Some v) old = v"

text \<open>
  The values that the database rejects with a data exception: a text with the character
  of code 0 in it, an integer outside the 32 bits of an \<^verbatim>\<open>integer\<close> column, and a
  decimal text that the input function of the column refuses. \<open>accepts\<close> lifts a check
  to a property that may be absent, or to a value that may be null.
\<close>

definition text_ok :: "string \<Rightarrow> bool" where
  "text_ok s = (CHR 0x00 \<notin> set s)"

definition int4_ok :: "int \<Rightarrow> bool" where
  "int4_ok n = (- 2147483648 \<le> n \<and> n \<le> 2147483647)"

definition numeric_ok :: "db \<Rightarrow> nat \<Rightarrow> nat \<Rightarrow> string \<Rightarrow> bool" where
  "numeric_ok d precision scale t = (text_ok t \<and> db_numeric_in d precision scale t \<noteq> None)"

fun accepts :: "('a \<Rightarrow> bool) \<Rightarrow> 'a option \<Rightarrow> bool" where
  "accepts ok None = True"
| "accepts ok (Some v) = ok v"

text \<open>
  A key is text as well. The rows of a state may carry any string as a key, while the
  database holds well-formed text only; so that no statement rejects a key that the state
  holds, a key passes when it is well-formed or is among the stored values of the column
  that it is compared with, refers to, or is written to.
\<close>

definition sendable :: "string list \<Rightarrow> string \<Rightarrow> bool" where
  "sendable stored t = (t \<in> set stored \<or> text_ok t)"

text \<open>
  What a decimal column holds after a value, or null, is written to it. (A statement that
  carries a text the input function rejects has thrown, and writes nothing.)
\<close>

fun numeric_stored :: "db \<Rightarrow> nat \<Rightarrow> nat \<Rightarrow> string option \<Rightarrow> string option" where
  "numeric_stored d precision scale None = None"
| "numeric_stored d precision scale (Some t) = db_numeric_in d precision scale t"

text \<open>
  The query builder turns the value of a timestamp column into text with
  \<^verbatim>\<open>value.toISOString()\<close>, which throws a TypeError for a value that is not a
  \<^verbatim>\<open>Date\<close>, before any statement is sent. \<open>stored_date\<close> is the assignment that
  reaches the column; its last equation is never used, since the method has thrown.
\<close>

fun stored_date :: "date_value option option \<Rightarrow> timestamp option option" where
  "stored_date None = None"
| "stored_date (Some None) = Some None"
| "stored_date (Some (Some (Date ts))) = Some (Some ts)"
| "stored_date (Some (Some NotADate)) = None"

definition set_campaign :: "PartialCampaign \<Rightarrow> Campaign \<Rightarrow> Campaign" where
  "set_campaign u c =
     \<lparr> c_id = assign (pc_id u) (c_id c),
       c_userId = assign (pc_userId u) (c_userId c),
       c_name = assign (pc_name u) (c_name c),
       c_businessCategory = assign (pc_businessCategory u) (c_businessCategory c),
       c_location = assign (pc_location u) (c_location c),
       c_radius = assign (pc_radius u) (c_radius c),
       c_scrapingMode = assign (pc_scrapingMode u) (c_scrapingMode c),
       c_pageLimit = assign (pc_pageLimit u) (c_pageLimit c),
       c_delay = assign (pc_delay u) (c_delay c),
       c_status = assign (pc_status u) (c_status c),
       c_progress = assign (pc_progress u) (c_progress c),
       c_totalPages = assign (pc_totalPages u) (c_totalPages c),
       c_leadsFound = assign (pc_leadsFound u) (c_leadsFound c),
       c_createdAt = assign (stored_date (pc_createdAt u)) (c_createdAt c),
       c_updatedAt = assign (stored_date (pc_updatedAt u)) (c_updatedAt c) \<rparr>"

definition set_lead :: "PartialLead \<Rightarrow> Lead \<Rightarrow> Lead" where
  "set_lead u l =
     \<lparr> l_id = assign (pl_id u) (l_id l),
       l_campaignId = assign (pl_campaignId u) (l_campaignId l),
       l_businessName = assign (pl_businessName u) (l_businessName l),
       l_category = assign (pl_category u) (l_category l),
       l_phone = assign (pl_phone u) (l_phone l),
       l_email = assign (pl_email u) (l_email l),
       l_website = assign (pl_website u) (l_website l),
       l_address = assign (pl_address u) (l_address l),
       l_city = assign (pl_city u) (l_city l),
       l_state = assign (pl_state u) (l_state l),
       l_zipCode = assign (pl_zipCode u) (l_zipCode l),
       l_rating = assign (pl_rating u) (l_rating l),
       l_reviewCount = assign (pl_reviewCount u) (l_reviewCount l),
       l_isValidated = assign (pl_isValidated u) (l_isValidated l),
       l_isDuplicate = assign (pl_isDuplicate u) (l_isDuplicate l),
       l_notes = assign (pl_notes u) (l_notes l),
       l_tags = assign (pl_tags u) (l_tags l),
       l_contactStatus = assign (pl_contactStatus u) (l_contactStatus l),
       l_createdAt = assign (stored_date (pl_createdAt u)) (l_createdAt l),
       l_updatedAt = assign (stored_date (pl_updatedAt u)) (l_updatedAt l) \<rparr>"

text \<open>The object literal with no property set, to which the source's literals add theirs.\<close>

definition no_campaign_updates :: PartialCampaign where
  "no_campaign_updates =
     \<lparr> pc_id = None, pc_userId = None, pc_name = None, pc_businessCategory = None,
       pc_location = None, pc_radius = None, pc_scrapingMode = None, pc_pageLimit = None,
       pc_delay = None, pc_status = None, pc_progress = None, pc_totalPages = None,
       pc_leadsFound = None, pc_createdAt = None, pc_updatedAt = None \<rparr>"

definition no_lead_updates :: PartialLead where
  "no_lead_updates =
     \<lparr> pl_id = None, pl_campaignId = None, pl_businessName = None, pl_category = None,
       pl_phone = None, pl_email = None, pl_website = None, pl_address = None,
       pl_city = None, pl_state = None, pl_zipCode = None, pl_rating = None,
       pl_reviewCount = None, pl_isValidated = None, pl_isDuplicate = None,
       pl_notes = None, pl_tags = None, pl_contactStatus = None, pl_createdAt = None,
       pl_updatedAt = None \<rparr>"

text \<open>
  Whether the database takes every value that a statement writes, column by column of
  the schema, and the values as the columns then hold them (a decimal text in the form
  that the column gives it).
\<close>

definition campaign_values_ok :: "db \<Rightarrow> PartialCampaign \<Rightarrow> bool" where
  "campaign_values_ok d u =
     (accepts (sendable (map c_id (db_campaigns d))) (pc_id u)
      \<and> accepts (sendable (map u_id (db_users d))) (pc_userId u)
      \<and> accepts text_ok (pc_name u)
      \<and> accepts text_ok (pc_businessCategory u)
      \<and> accepts text_ok (pc_location u)
      \<and> accepts int4_ok (pc_radius u)
      \<and> accepts text_ok (pc_scrapingMode u)
      \<and> accepts (accepts int4_ok) (pc_pageLimit u)
      \<and> accepts (accepts (numeric_ok d 3 1)) (pc_delay u)
      \<and> accepts text_ok (pc_status u)
      \<and> accepts (accepts int4_ok) (pc_progress u)
      \<and> accepts (accepts int4_ok) (pc_totalPages u)
      \<and> accepts (accepts int4_ok) (pc_leadsFound u))"

definition stored_campaign_values :: "db \<Rightarrow> PartialCampaign \<Rightarrow> PartialCampaign" where
  "stored_campaign_values d u = u\<lparr>pc_delay := map_option (numeric_stored d 3 1) (pc_delay u)\<rparr>"

definition lead_values_ok :: "db \<Rightarrow> PartialLead \<Rightarrow> bool" where
  "lead_values_ok d u =
     (accepts (sendable (map l_id (db_leads d))) (pl_id u)
      \<and> accepts (sendable (map c_id (db_campaigns d))) (pl_campaignId u)
      \<and> accepts text_ok (pl_businessName u)
      \<and> accepts (accepts text_ok) (pl_category u)
      \<and> accepts (accepts text_ok) (pl_phone u)
      \<and> accepts (accepts text_ok) (pl_email u)
      \<and> accepts (accepts text_ok) (pl_website u)
      \<and> accepts (accepts text_ok) (pl_address u)
      \<and> accepts (accepts text_ok) (pl_city u)
      \<and> accepts (accepts text_ok) (pl_state u)
      \<and> accepts (accepts text_ok) (pl_zipCode u)
      \<and> accepts (accepts (numeric_ok d 2 1)) (pl_rating u)
      \<and> accepts (accepts int4_ok) (pl_reviewCount u)
      \<and> accepts (accepts text_ok) (pl_notes u)
      \<and> accepts (accepts text_ok) (pl_tags u)
      \<and> accepts (accepts text_ok) (pl_contactStatus u))"

definition stored_lead_values :: "db \<Rightarrow> PartialLead \<Rightarrow> PartialLead" where
  "stored_lead_values d u = u\<lparr>pl_rating := map_option (numeric_stored d 2 1) (pl_rating u)\<rparr>"

definition insert_campaign_ok :: "db \<Rightarrow> string \<Rightarrow> InsertCampaign \<Rightarrow> bool" where
  "insert_campaign_ok d userId campaign =
     (sendable (map u_id (db_users d)) userId
      \<and> text_ok (ic_name campaign)
      \<and> text_ok (ic_businessCategory campaign)
      \<and> text_ok (ic_location campaign)
      \<and> int4_ok (ic_radius campaign)
      \<and> text_ok (ic_scrapingMode campaign)
      \<and> accepts (accepts int4_ok) (ic_pageLimit campaign)
      \<and> accepts (accepts (numeric_ok d 3 1)) (ic_delay campaign)
      \<and> accepts text_ok (ic_status campaign)
      \<and> accepts (accepts int4_ok) (ic_progress campaign)
      \<and> accepts (accepts int4_ok) (ic_totalPages campaign)
      \<and> accepts (accepts int4_ok) (ic_leadsFound campaign))"

definition insert_lead_ok :: "db \<Rightarrow> InsertLead \<Rightarrow> bool" where
  "insert_lead_ok d lead =
     (sendable (map c_id (db_campaigns d)) (il_campaignId lead)
      \<and> text_ok (il_businessName lead)
      \<and> accepts text_ok (il_category lead)
      \<and> accepts text_ok (il_phone lead)
      \<and> accepts text_ok (il_email lead)
      \<and> accepts text_ok (il_website lead)
      \<and> accepts text_ok (il_address lead)
      \<and> accepts text_ok (il_city lead)
      \<and> accepts text_ok (il_state lead)
      \<and> accepts text_ok (il_zipCode lead)
      \<and> accepts (numeric_ok d 2 1) (il_rating lead)
      \<and> accepts int4_ok (il_reviewCount lead)
      \<and> accepts text_ok (il_notes lead)
      \<and> accepts text_ok (il_tags lead)
      \<and> accepts (accepts text_ok) (il_contactStatus lead))"

definition insert_file_ok :: "db \<Rightarrow> string \<Rightarrow> InsertFile \<Rightarrow> bool" where
  "insert_file_ok d userId file =
     (sendable (map u_id (db_users d)) userId
      \<and> text_ok (if_filename file)
      \<and> text_ok (if_originalName file)
      \<and> text_ok (if_fileType file)
      \<and> int4_ok (if_fileSize file)
      \<and> text_ok (if_filePath file))"

section \<open>Storage access layer (server/storage.ts)\<close>

text \<open>
  Each method of \<^verbatim>\<open>DatabaseStorage\<close> is one SQL statement. It is modelled as a
  function of the database state that returns \<open>Inl\<close> of the error the statement throws,
  or \<open>Inr\<close> of the method's return value and the new state. A statement that throws
  changes nothing. The values the source takes from its environment are parameters:
  \<open>now\<close> for \<^verbatim>\<open>new Date()\<close> and \<^verbatim>\<open>defaultNow()\<close>, \<open>new_id\<close> for
  \<^verbatim>\<open>gen_random_uuid()\<close>. A method throws, in this order: when the query builder
  cannot build the statement (a value that is no \<^verbatim>\<open>Date\<close> for a timestamp column),
  when the connection is broken, when the database rejects a value that the statement
  carries, and when the statement violates a constraint.
\<close>

type_synonym 'a stmt = "error + ('a \<times> db)"

text \<open>
  \<^verbatim>\<open>orderBy(desc(col))\<close> on a nullable timestamp: larger values first and, as
  PostgreSQL does for DESC, NULLs before every value. \<open>order_by\<close> is an insertion sort
  that keeps rows with equal keys in table order (SQL leaves their order open).
\<close>

fun desc_before :: "timestamp option \<Rightarrow> timestamp option \<Rightarrow> bool" where
  "desc_before None _ = True"
| "desc_before (Some a) None = False"
| "desc_before (Some a) (Some b) = (b \<le> a)"

fun insert_by :: "('a \<Rightarrow> 'a \<Rightarrow> bool) \<Rightarrow> 'a \<Rightarrow> 'a list \<Rightarrow> 'a list" where
  "insert_by before x [] = [x]"
| "insert_by before x (y # ys) =
     (if before x y then x # y # ys else y # insert_by before x ys)"

definition order_by :: "('a \<Rightarrow> 'a \<Rightarrow> bool) \<Rightarrow> 'a list \<Rightarrow> 'a list" where
  "order_by before xs = foldr (insert_by before) xs []"

definition getUser :: "db \<Rightarrow> string \<Rightarrow> User option stmt" where
  "getUser d i =
     (if \<not> db_connected d then Inl ConnectionError
      else if \<not> sendable (map u_id (db_users d)) i then Inl DataException
      else Inr (find (\<lambda>u. u_id u = i) (db_users d), d))"

definition createCampaign ::
  "db \<Rightarrow> string \<Rightarrow> timestamp \<Rightarrow> string \<Rightarrow> InsertCampaign \<Rightarrow> Campaign stmt" where
  "createCampaign d new_id now userId campaign =
     (let newCampaign =
        \<lparr> c_id = new_id,
          c_userId = userId,
          c_name = ic_name campaign,
          c_businessCategory = ic_businessCategory campaign,
          c_location = ic_location campaign,
          c_radius = ic_radius campaign,
          c_scrapingMode = ic_scrapingMode campaign,
          c_pageLimit = assign (ic_pageLimit campaign) (Some 50),
          c_delay = assign (map_option (numeric_stored d 3 1) (ic_delay campaign))
                      (Some ''1.5''),
          c_status = assign (ic_status campaign) ''draft'',
          c_progress = assign (ic_progress campaign) (Some 0),
          c_totalPages = assign (ic_totalPages campaign) (Some 0),
          c_leadsFound = assign (ic_leadsFound campaign) (Some 0),
          c_createdAt = Some now,
          c_updatedAt = Some now \<rparr>
      in if \<not> db_connected d then Inl ConnectionError
         else if \<not> insert_campaign_ok d userId campaign then Inl DataException
         else if new_id \<in> set (map c_id (db_campaigns d)) then Inl UniqueViolation
         else if userId \<notin> set (map u_id (db_users d)) then Inl ForeignKeyViolation
         else Inr (newCampaign, d\<lparr>db_campaigns := db_campaigns d @ [newCampaign]\<rparr>))"

definition getUserCampaigns :: "db \<Rightarrow> string \<Rightarrow> Campaign list stmt" where
  "getUserCampaigns d userId =
     (if \<not> db_connected d then Inl ConnectionError
      else if \<not> sendable (map c_userId (db_campaigns d)) userId then Inl DataException
      else Inr (order_by (\<lambda>a b. desc_before (c_createdAt a) (c_createdAt b))
                  (filter (\<lambda>c. c_userId c = userId) (db_campaigns d)), d))"

definition getCampaign :: "db \<Rightarrow> string \<Rightarrow> Campaign option stmt" where
  "getCampaign d i =
     (if \<not> db_connected d then Inl ConnectionError
      else if \<not> sendable (map c_id (db_campaigns d)) i then Inl DataException
      else Inr (find (\<lambda>c. c_id c = i) (db_campaigns d), d))"

text \<open>
  \<^verbatim>\<open>update(campaigns).set({...updates, updatedAt: new Date()}).where(eq(id)).returning()\<close>:
  every row with the id is rewritten, and the method returns the first rewritten row, or
  undefined (None) when no row has the id. The statement is rejected when it assigns
  \<open>id\<close> and two rows would share a primary key, when it assigns a \<open>userId\<close> that is
  no user, and when it assigns \<open>id\<close> so that leads would reference a campaign that is
  gone. Before that, and whether or not a row has the id, it is rejected when a value
  that it carries is one the column does not take. The property \<open>updatedAt\<close> of the
  argument is overwritten, so of the two timestamps only \<open>createdAt\<close> can carry a value
  that is no \<^verbatim>\<open>Date\<close>.
\<close>

definition updateCampaign ::
  "db \<Rightarrow> timestamp \<Rightarrow> string \<Rightarrow> PartialCampaign \<Rightarrow> Campaign option stmt" where
  "updateCampaign d now i updates =
     (let s = updates\<lparr>pc_updatedAt := Some (Some (Date now))\<rparr>;
          v = stored_campaign_values d s;
          rows = map (\<lambda>c. if c_id c = i then set_campaign v c else c) (db_campaigns d)
      in if pc_createdAt s = Some (Some NotADate) then Inl TypeError
         else if \<not> db_connected d then Inl ConnectionError
         else if \<not> sendable (map c_id (db_campaigns d)) i \<or> \<not> campaign_values_ok d s
           then Inl DataException
         else (case filter (\<lambda>c. c_id c = i) (db_campaigns d) of
             [] \<Rightarrow> Inr (None, d)
           | c # _ \<Rightarrow>
               if pc_id s \<noteq> None \<and> \<not> distinct (map c_id rows) then Inl UniqueViolation
               else if (case pc_userId s of None \<Rightarrow> False
                        | Some v \<Rightarrow> v \<notin> set (map u_id (db_users d)))
                 then Inl ForeignKeyViolation
               else if pc_id s \<noteq> None \<and> i \<notin> set (map c_id rows)
                       \<and> i \<in> set (map l_campaignId (db_leads d))
                 then Inl ForeignKeyViolation
               else Inr (Some (set_campaign v c), d\<lparr>db_campaigns := rows\<rparr>)))"

text \<open>
  \<^verbatim>\<open>delete(campaigns).where(eq(campaigns.id, id))\<close>. The schema declares
  \<^verbatim>\<open>leads.campaign_id\<close> as \<^verbatim>\<open>references(() => campaigns.id)\<close> with no
  \<^verbatim>\<open>onDelete\<close>, so deleting a campaign that a lead references is rejected.
\<close>

definition deleteCampaign :: "db \<Rightarrow> string \<Rightarrow> unit stmt" where
  "deleteCampaign d i =
     (if \<not> db_connected d then Inl ConnectionError
      else if \<not> sendable (map c_id (db_campaigns d)) i then Inl DataException
      else if i \<in> set (map c_id (db_campaigns d)) \<and> i \<in> set (map l_campaignId (db_leads d))
        then Inl ForeignKeyViolation
      else Inr ((), d\<lparr>db_campaigns := filter (\<lambda>c. c_id c \<noteq> i) (db_campaigns d)\<rparr>))"

definition createLead :: "db \<Rightarrow> string \<Rightarrow> timestamp \<Rightarrow> InsertLead \<Rightarrow> Lead stmt" where
  "createLead d new_id now lead =
     (let newLead =
        \<lparr> l_id = new_id,
          l_campaignId = il_campaignId lead,
          l_businessName = il_businessName lead,
          l_category = il_category lead,
          l_phone = il_phone lead,
          l_email = il_email lead,
          l_website = il_website lead,
          l_address = il_address lead,
          l_city = il_city lead,
          l_state = il_state lead,
          l_zipCode = il_zipCode lead,
          l_rating = numeric_stored d 2 1 (il_rating lead),
          l_reviewCount = il_reviewCount lead,
          l_isValidated = assign (il_isValidated lead) (Some False),
          l_isDuplicate = assign (il_isDuplicate lead) (Some False),
          l_notes = il_notes lead,
          l_tags = il_tags lead,
          l_contactStatus = assign (il_contactStatus lead) (Some ''not_contacted''),
          l_createdAt = Some now,
          l_updatedAt = Some now \<rparr>
      in if \<not> db_connected d then Inl ConnectionError
         else if \<not> insert_lead_ok d lead then Inl DataException
         else if new_id \<in> set (map l_id (db_leads d)) then Inl UniqueViolation
         else if il_campaignId lead \<notin> set (map c_id (db_campaigns d))
           then Inl ForeignKeyViolation
         else Inr (newLead, d\<lparr>db_leads := db_leads d @ [newLead]\<rparr>))"

definition getCampaignLeads :: "db \<Rightarrow> string \<Rightarrow> Lead list stmt" where
  "getCampaignLeads d campaignId =
     (if \<not> db_connected d then Inl ConnectionError
      else if \<not> sendable (map l_campaignId (db_leads d)) campaignId then Inl DataException
      else Inr (order_by (\<lambda>a b. desc_before (l_createdAt a) (l_createdAt b))
                  (filter (\<lambda>l. l_campaignId l = campaignId) (db_leads d)), d))"

text \<open>The inner join of leads with campaigns: one result row per matching pair.\<close>

definition leads_of_user :: "db \<Rightarrow> string \<Rightarrow> Lead list" where
  "leads_of_user d userId =
     concat (map (\<lambda>l. map (\<lambda>c. l)
                    (filter (\<lambda>c. l_campaignId l = c_id c \<and> c_userId c = userId)
                       (db_campaigns d)))
               (db_leads d))"

definition getUserLeads :: "db \<Rightarrow> string \<Rightarrow> Lead list stmt" where
  "getUserLeads d userId =
     (if \<not> db_connected d then Inl ConnectionError
      else if \<not> sendable (map c_userId (db_campaigns d)) userId then Inl DataException
      else Inr (order_by (\<lambda>a b. desc_before (l_createdAt a) (l_createdAt b))
                  (leads_of_user d userId), d))"

definition updateLead :: "db \<Rightarrow> timestamp \<Rightarrow> string \<Rightarrow> PartialLead \<Rightarrow> Lead option stmt" where
  "updateLead d now i updates =
     (let s = updates\<lparr>pl_updatedAt := Some (Some (Date now))\<rparr>;
          v = stored_lead_values d s;
          rows = map (\<lambda>l. if l_id l = i then set_lead v l else l) (db_leads d)
      in if pl_createdAt s = Some (Some NotADate) then Inl TypeError
         else if \<not> db_connected d then Inl ConnectionError
         else if \<not> sendable (map l_id (db_leads d)) i \<or> \<not> lead_values_ok d s
           then Inl DataException
         else (case filter (\<lambda>l. l_id l = i) (db_leads d) of
             [] \<Rightarrow> Inr (None, d)
           | l # _ \<Rightarrow>
               if pl_id s \<noteq> None \<and> \<not> distinct (map l_id rows) then Inl UniqueViolation
               else if (case pl_campaignId s of None \<Rightarrow> False
                        | Some v \<Rightarrow> v \<notin> set (map c_id (db_campaigns d)))
                 then Inl ForeignKeyViolation
               else Inr (Some (set_lead v l), d\<lparr>db_leads := rows\<rparr>)))"

definition deleteLead :: "db \<Rightarrow> string \<Rightarrow> unit stmt" where
  "deleteLead d i =
     (if \<not> db_connected d then Inl ConnectionError
      else if \<not> sendable (map l_id (db_leads d)) i then Inl DataException
      else Inr ((), d\<lparr>db_leads := filter (\<lambda>l. l_id l \<noteq> i) (db_leads d)\<rparr>))"

text \<open>
  \<^verbatim>\<open>getLeadStats\<close>: three counts, and the conversion rate as the text
  \<^verbatim>\<open>(validated / total * 100).toFixed(1)\<close>. The formatting of that floating-point
  number is the parameter \<open>toFixed1\<close>.
\<close>

record LeadStats =
  totalLeads :: nat
  validatedLeads :: nat
  activeCampaigns :: nat
  conversionRate :: string

definition getLeadStats :: "(nat \<Rightarrow> nat \<Rightarrow> string) \<Rightarrow> db \<Rightarrow> string \<Rightarrow> LeadStats stmt" where
  "getLeadStats toFixed1 d userId =
     (let total = length (leads_of_user d userId);
          validated = length (filter (\<lambda>l. l_isValidated l = Some True) (leads_of_user d userId));
          active = length (filter (\<lambda>c. c_userId c = userId \<and> c_status c = ''running'')
                             (db_campaigns d))
      in if \<not> db_connected d then Inl ConnectionError
         else if \<not> sendable (map c_userId (db_campaigns d)) userId then Inl DataException
         else Inr (\<lparr> totalLeads = total,
                     validatedLeads = validated,
                     activeCampaigns = active,
                     conversionRate = (if total > 0 then toFixed1 validated total else ''0.0'') \<rparr>,
                   d))"

definition createFile :: "db \<Rightarrow> string \<Rightarrow> timestamp \<Rightarrow> string \<Rightarrow> InsertFile \<Rightarrow> File stmt" where
  "createFile d new_id now userId file =
     (let newFile =
        \<lparr> f_id = new_id,
          f_userId = userId,
          f_filename = if_filename file,
          f_originalName = if_originalName file,
          f_fileType = if_fileType file,
          f_fileSize = if_fileSize file,
          f_filePath = if_filePath file,
          f_uploadedAt = Some now \<rparr>
      in if \<not> db_connected d then Inl ConnectionError
         else if \<not> insert_file_ok d userId file then Inl DataException
         else if new_id \<in> set (map f_id (db_files d)) then Inl UniqueViolation
         else if userId \<notin> set (map u_id (db_users d)) then Inl ForeignKeyViolation
         else Inr (newFile, d\<lparr>db_files := db_files d @ [newFile]\<rparr>))"

definition getUserFiles :: "db \<Rightarrow> string \<Rightarrow> File list stmt" where
  "getUserFiles d userId =
     (if \<not> db_connected d then Inl ConnectionError
      else if \<not> sendable (map f_userId (db_files d)) userId then Inl DataException
      else Inr (order_by (\<lambda>a b. desc_before (f_uploadedAt a) (f_uploadedAt b))
                  (filter (\<lambda>f. f_userId f = userId) (db_files d)), d))"

definition getFile :: "db \<Rightarrow> string \<Rightarrow> File option stmt" where
  "getFile d i =
     (if \<not> db_connected d then Inl ConnectionError
      else if \<not> sendable (map f_id (db_files d)) i then Inl DataException
      else Inr (find (\<lambda>f. f_id f = i) (db_files d), d))"

section \<open>Connection registry and broadcaster (server/routes.ts)\<close>

text \<open>
  What \<^verbatim>\<open>JSON.parse\<close> returns. An object is the list of its properties; the parser
  keeps one value per key, which \<open>map_of\<close> reads.
\<close>

datatype json =
  JNull
  | JBool bool
  | JNumber rat
  | JString string
  | JArray "json list"
  | JObject "(string \<times> json) list"

text \<open>
  Reading the property \<open>type\<close> or \<open>userId\<close> of a parsed value: null has no
  properties and the access throws a TypeError; a number, boolean, string or array has
  neither property, so the access gives undefined (None).
\<close>

fun get_prop :: "json \<Rightarrow> string \<Rightarrow> error + json option" where
  "get_prop JNull k = Inl TypeError"
| "get_prop (JObject kvs) k = Inr (map_of kvs k)"
| "get_prop _ k = Inr None"

fun truthy :: "json option \<Rightarrow> bool" where
  "truthy None = False"
| "truthy (Some JNull) = False"
| "truthy (Some (JBool b)) = b"
| "truthy (Some (JNumber n)) = (n \<noteq> 0)"
| "truthy (Some (JString s)) = (s \<noteq> [])"
| "truthy (Some (JArray xs)) = True"
| "truthy (Some (JObject kvs)) = True"

datatype ready_state = CONNECTING | OPEN | CLOSING | CLOSED

text \<open>The events the server sends; \<open>sent\<close> of a connection is what was sent on it.\<close>

datatype ws_message =
  ScrapingProgress string int int int int
  | ScrapingCompleted string
  | CampaignUpdated "Campaign option"

record WebSocketClient =
  readyState :: ready_state
  userId :: "json option"
  sent :: "ws_message list"

text \<open>
  The \<^verbatim>\<open>message\<close> handler of a connection, on the outcome of
  \<^verbatim>\<open>JSON.parse(message.toString())\<close>. Whatever the \<^verbatim>\<open>try\<close> block throws is
  caught and logged, and the connection is unchanged.
\<close>

definition on_message :: "error + json \<Rightarrow> WebSocketClient \<Rightarrow> WebSocketClient" where
  "on_message parsed ws =
     (case parsed of
        Inl e \<Rightarrow> ws
      | Inr data \<Rightarrow>
          (case get_prop data ''type'' of
             Inl e \<Rightarrow> ws
           | Inr t \<Rightarrow>
               if t = Some (JString ''auth'') then
                 (case get_prop data ''userId'' of
                    Inl e \<Rightarrow> ws
                  | Inr u \<Rightarrow> if truthy u then ws\<lparr>userId := u\<rparr> else ws)
               else ws))"

text \<open>
  \<^verbatim>\<open>broadcastToUser\<close>: \<^verbatim>\<open>===\<close> against a string holds only for a tag that is
  that very string.
\<close>

definition broadcastToUser ::
  "string \<Rightarrow> ws_message \<Rightarrow> WebSocketClient list \<Rightarrow> WebSocketClient list" where
  "broadcastToUser uid message clients =
     map (\<lambda>client.
            if readyState client = OPEN \<and> userId client = Some (JString uid)
            then client\<lparr>sent := sent client @ [message]\<rparr>
            else client)
         clients"

text \<open>
  The life of the registry \<^verbatim>\<open>wss.clients\<close>: a connection is added, a connection
  (named by its position) receives a message or closes, the server broadcasts. A closed
  connection stays in the list with \<open>readyState = CLOSED\<close>, which \<open>broadcastToUser\<close>
  skips as it skips a connection that is gone.
\<close>

datatype ws_event =
  Connection
  | Message nat "error + json"
  | Close nat
  | Broadcast string ws_message

fun wss_step :: "WebSocketClient list \<Rightarrow> ws_event \<Rightarrow> WebSocketClient list" where
  "wss_step clients Connection =
     clients @ [\<lparr> readyState = OPEN, userId = None, sent = [] \<rparr>]"
| "wss_step clients (Message i parsed) =
     (if i < length clients then clients[i := on_message parsed (clients ! i)] else clients)"
| "wss_step clients (Close i) =
     (if i < length clients then clients[i := (clients ! i)\<lparr>readyState := CLOSED\<rparr>]
      else clients)"
| "wss_step clients (Broadcast uid message) = broadcastToUser uid message clients"

definition wss_run :: "ws_event list \<Rightarrow> WebSocketClient list" where
  "wss_run events = foldl wss_step [] events"

text \<open>A message that is an object with \<open>type\<close> "auth" and a \<open>userId\<close> property.\<close>

fun is_auth_message :: "error + json \<Rightarrow> bool" where
  "is_auth_message (Inr (JObject kvs)) =
     (map_of kvs ''type'' = Some (JString ''auth'') \<and> map_of kvs ''userId'' \<noteq> None)"
| "is_auth_message _ = False"

section \<open>Campaign progress simulator (simulateScraping)\<close>

text \<open>
  The text of an integer in a template literal, \<^verbatim>\<open>`Business ${leadsFound + i}`\<close>:
  its decimal digits, after a minus sign when it is negative.
\<close>

definition digit :: "nat \<Rightarrow> char" where
  "digit n = ''0123456789'' ! n"

fun decimal :: "nat \<Rightarrow> string \<Rightarrow> string" where
  "decimal n suffix =
     (if n < 10 then digit n # suffix else decimal (n div 10) (digit (n mod 10) # suffix))"

declare decimal.simps [simp del]

definition number_to_string :: "int \<Rightarrow> string" where
  "number_to_string i =
     (if i < 0 then CHR ''-'' # decimal (nat (- i)) [] else decimal (nat i) [])"

text \<open>
  What one firing of the timer takes from its environment: the value of
  \<^verbatim>\<open>Math.random()\<close> on line 260, the values of \<^verbatim>\<open>Math.random()\<close> on line 279
  and the generated primary keys of the two inserts (by loop index), and the clock.
  A random value is a rational number; \<^verbatim>\<open>Math.random()\<close> gives one with
  \<open>0 \<le> r < 1\<close>. The arithmetic on it is exact: \<^verbatim>\<open>Math.floor\<close> is the floor and
  \<^verbatim>\<open>Math.round\<close> is \<open>round\<close>, which takes a half upwards as JavaScript does. (In
  floating point \<^verbatim>\<open>r * 5\<close> stays below 5, and \<^verbatim>\<open>currentPage / totalPages * 100\<close> is
  within a rounding error of the multiple of ten that \<^verbatim>\<open>Math.round\<close> returns.)
\<close>

record tick_env =
  rand_found :: rat
  rand_validated :: "int \<Rightarrow> rat"
  lead_uuid :: "int \<Rightarrow> string"
  tick_now :: timestamp

text \<open>
  The closure of one call of \<^verbatim>\<open>simulateScraping\<close>: its two arguments, its two
  counters, and whether the interval is still set.
\<close>

record timer =
  sim_campaignId :: string
  sim_userId :: string
  currentPage :: int
  leadsFound :: int
  interval_set :: bool

definition totalPages :: int where
  "totalPages = 10"

record world =
  w_db :: db
  w_clients :: "WebSocketClient list"

text \<open>How a call of the asynchronous callback ends: its promise is fulfilled or rejected.\<close>

datatype outcome = Returned | Threw error

definition sample_lead :: "string \<Rightarrow> int \<Rightarrow> int \<Rightarrow> rat \<Rightarrow> InsertLead" where
  "sample_lead campaignId found i r =
     \<lparr> il_campaignId = campaignId,
       il_businessName = ''Business '' @ number_to_string (found + i),
       il_category = Some ''Sample Category'',
       il_phone = None,
       il_email = None,
       il_website = None,
       il_address = None,
       il_city = Some ''Sample City'',
       il_state = Some ''SC'',
       il_zipCode = None,
       il_rating = None,
       il_reviewCount = None,
       il_isValidated = Some (Some (r > 3 / 10)),
       il_isDuplicate = None,
       il_notes = None,
       il_tags = None,
       il_contactStatus = None \<rparr>"

text \<open>
  The loop \<^verbatim>\<open>for (let i = 0; i < 2; i++) await storage.createLead(...)\<close>. An insert
  that throws ends the loop; the rows inserted before it stay.
\<close>

function generate_leads :: "tick_env \<Rightarrow> string \<Rightarrow> int \<Rightarrow> int \<Rightarrow> db \<Rightarrow> outcome \<times> db" where
  "generate_leads e campaignId found i d =
     (if i < 2 then
        (case createLead d (lead_uuid e i) (tick_now e)
                (sample_lead campaignId found i (rand_validated e i)) of
           Inl err \<Rightarrow> (Threw err, d)
         | Inr (newLead, d') \<Rightarrow> generate_leads e campaignId found (i + 1) d')
      else (Returned, d))"
  by pat_completeness auto
termination
  by (relation "measure (\<lambda>(e, campaignId, found, i, d). nat (2 - i))") auto

declare generate_leads.simps [simp del]

text \<open>
  One firing of the interval callback. The counters are advanced before the first
  \<^verbatim>\<open>await\<close>; nothing in the callback catches, so a storage call that throws ends
  the callback there, with the counters advanced and the interval still set.
\<close>

definition tick :: "tick_env \<Rightarrow> timer \<Rightarrow> world \<Rightarrow> timer \<times> world \<times> outcome" where
  "tick e t w =
     (let t1 = t\<lparr> currentPage := currentPage t + 1,
                  leadsFound := leadsFound t + (\<lfloor>rand_found e * 5\<rfloor> + 1) \<rparr>;
          progress = round (of_int (currentPage t1) / of_int totalPages * (100 :: rat))
      in case updateCampaign (w_db w) (tick_now e) (sim_campaignId t1)
                (no_campaign_updates\<lparr> pc_progress := Some (Some progress),
                                       pc_totalPages := Some (Some (currentPage t1)),
                                       pc_leadsFound := Some (Some (leadsFound t1)) \<rparr>) of
           Inl err \<Rightarrow> (t1, w, Threw err)
         | Inr (updated, d1) \<Rightarrow>
             (case generate_leads e (sim_campaignId t1) (leadsFound t1) 0 d1 of
                (Threw err, d2) \<Rightarrow> (t1, w\<lparr>w_db := d2\<rparr>, Threw err)
              | (Returned, d2) \<Rightarrow>
                  (let clients1 =
                         broadcastToUser (sim_userId t1)
                           (ScrapingProgress (sim_campaignId t1) progress (currentPage t1)
                              totalPages (leadsFound t1))
                           (w_clients w)
                   in if currentPage t1 \<ge> totalPages then
                        (let t2 = t1\<lparr>interval_set := False\<rparr>
                         in case updateCampaign d2 (tick_now e) (sim_campaignId t1)
                                   (no_campaign_updates\<lparr> pc_status := Some ''completed'',
                                                          pc_progress := Some (Some 100) \<rparr>) of
                              Inl err \<Rightarrow>
                                (t2, \<lparr> w_db = d2, w_clients = clients1 \<rparr>, Threw err)
                            | Inr (completed, d3) \<Rightarrow>
                                (t2,
                                 \<lparr> w_db = d3,
                                   w_clients = broadcastToUser (sim_userId t1)
                                     (ScrapingCompleted (sim_campaignId t1)) clients1 \<rparr>,
                                 Returned))
                      else (t1, \<lparr> w_db = d2, w_clients = clients1 \<rparr>, Returned))))"

text \<open>
  \<^verbatim>\<open>simulateScraping\<close> sets the counters to 0 and sets the interval.
\<close>

definition simulateScraping :: "string \<Rightarrow> string \<Rightarrow> timer" where
  "simulateScraping campaignId uid =
     \<lparr> sim_campaignId = campaignId, sim_userId = uid, currentPage = 0, leadsFound = 0,
       interval_set = True \<rparr>"

text \<open>
  When the callback throws, its promise is rejected and nothing handles the rejection.
  What follows is the runtime's choice and not the code's: Node terminates the process
  (its default from version 15 on), unless it is started with
  \<^verbatim>\<open>--unhandled-rejections=warn\<close> or the entry point of the server, which is not among
  the sources, installs a handler; then the process keeps running. Both behaviours are
  modelled. When the process exits, the interval is gone and every connection is closed;
  the database stays as it is.
\<close>

datatype unhandled_rejections = ExitProcess | KeepRunning

definition process_exit :: "timer \<Rightarrow> world \<Rightarrow> timer \<times> world" where
  "process_exit t w =
     (t\<lparr>interval_set := False\<rparr>,
      w\<lparr>w_clients := map (\<lambda>client. client\<lparr>readyState := CLOSED\<rparr>) (w_clients w)\<rparr>)"

text \<open>
  The timer fires once per element of the list of environments for as long as the
  interval is set; each firing runs to its end before the next (the callback's awaits are
  assumed to take less than the 2 seconds between firings, and no other request is served
  in between). The result is the closure, the world and how each firing ended.
\<close>

fun fire ::
  "unhandled_rejections \<Rightarrow> tick_env list \<Rightarrow> timer \<Rightarrow> world \<Rightarrow> timer \<times> world \<times> outcome list"
where
  "fire mode [] t w = (t, w, [])"
| "fire mode (e # es) t w =
     (if interval_set t then
        (case tick e t w of
           (t', w', out) \<Rightarrow>
             if out \<noteq> Returned \<and> mode = ExitProcess then
               (case process_exit t' w' of (t'', w'') \<Rightarrow> (t'', w'', [out]))
             else
               (case fire mode es t' w' of (t'', w'', outs) \<Rightarrow> (t'', w'', out # outs)))
      else (t, w, []))"

section \<open>HTTP route layer (registerRoutes)\<close>

text \<open>
  A request that has passed \<^verbatim>\<open>isAuthenticated\<close>: the route, the id of the session's
  user (\<^verbatim>\<open>req.user.claims.sub\<close>, the first argument of each constructor), the
  \<^verbatim>\<open>:id\<close> parameter and the body where the route reads them. The body of
  \<^verbatim>\<open>POST /api/campaigns\<close> is given by what \<^verbatim>\<open>insertCampaignSchema.parse\<close> makes of
  it, the upload by the file the multipart middleware found, if any. The body of a
  \<^verbatim>\<open>PATCH\<close> is passed to the storage unchecked; it is given by the columns it assigns
  (the query builder ignores every other property), each with a value of the type that
  the source declares for it, the timestamps apart.
\<close>

datatype request =
  GetAuthUser string
  | PostCampaigns string "error + InsertCampaign"
  | GetCampaigns string
  | GetCampaign string string
  | PatchCampaign string string PartialCampaign
  | DeleteCampaign string string
  | StartCampaign string string
  | GetLeads string
  | GetCampaignLeads string string
  | PatchLead string string PartialLead
  | GetStats string
  | PostFilesUpload string "InsertFile option"
  | GetFiles string
  | DownloadFile string string

datatype body =
  MessageBody string
  | UserBody "User option"
  | CampaignBody "Campaign option"
  | CampaignsBody "Campaign list"
  | LeadBody "Lead option"
  | LeadsBody "Lead list"
  | SuccessBody bool
  | StatsBody LeadStats
  | FileBody File
  | FilesBody "File list"
  | FileDownload File

record response =
  res_status :: nat
  res_body :: body

text \<open>\<^verbatim>\<open>res.json(x)\<close> answers 200; \<^verbatim>\<open>res.status(n).json(x)\<close> answers n.\<close>

definition json_response :: "nat \<Rightarrow> body \<Rightarrow> response" where
  "json_response n b = \<lparr> res_status = n, res_body = b \<rparr>"

text \<open>What a handler takes from its environment.\<close>

record req_env =
  env_now :: timestamp
  env_uuid :: string
  env_toFixed1 :: "nat \<Rightarrow> nat \<Rightarrow> string"
  env_existsSync :: "string \<Rightarrow> bool"

definition try_catch :: "error + 'a \<Rightarrow> (error \<Rightarrow> error + 'a) \<Rightarrow> error + 'a" where
  "try_catch block handler = (case block of Inl e \<Rightarrow> handler e | Inr v \<Rightarrow> Inr v)"

text \<open>
  The handlers. The result is \<open>Inl\<close> of an error that leaves the handler, or \<open>Inr\<close> of
  the response, the world after the request and the timers the request has set.
\<close>

fun handle :: "req_env \<Rightarrow> request \<Rightarrow> world \<Rightarrow> error + (response \<times> world \<times> timer list)" where
  "handle env (GetAuthUser uid) w =
     try_catch
       (case getUser (w_db w) uid of
          Inl e \<Rightarrow> Inl e
        | Inr (user, d) \<Rightarrow> Inr (json_response 200 (UserBody user), w, []))
       (\<lambda>error. Inr (json_response 500 (MessageBody ''Failed to fetch user''), w, []))"
| "handle env (PostCampaigns uid parsed) w =
     try_catch
       (case parsed of
          Inl e \<Rightarrow> Inl e
        | Inr campaignData \<Rightarrow>
            (case createCampaign (w_db w) (env_uuid env) (env_now env) uid campaignData of
               Inl e \<Rightarrow> Inl e
             | Inr (campaign, d) \<Rightarrow>
                 Inr (json_response 200 (CampaignBody (Some campaign)), w\<lparr>w_db := d\<rparr>, [])))
       (\<lambda>error. Inr (json_response 400 (MessageBody ''Failed to create campaign''), w, []))"
| "handle env (GetCampaigns uid) w =
     try_catch
       (case getUserCampaigns (w_db w) uid of
          Inl e \<Rightarrow> Inl e
        | Inr (campaigns, d) \<Rightarrow> Inr (json_response 200 (CampaignsBody campaigns), w, []))
       (\<lambda>error. Inr (json_response 500 (MessageBody ''Failed to fetch campaigns''), w, []))"
| "handle env (GetCampaign uid i) w =
     try_catch
       (case getCampaign (w_db w) i of
          Inl e \<Rightarrow> Inl e
        | Inr (campaign, d) \<Rightarrow>
            if campaign = None
            then Inr (json_response 404 (MessageBody ''Campaign not found''), w, [])
            else Inr (json_response 200 (CampaignBody campaign), w, []))
       (\<lambda>error. Inr (json_response 500 (MessageBody ''Failed to fetch campaign''), w, []))"
| "handle env (PatchCampaign uid i updates) w =
     try_catch
       (case updateCampaign (w_db w) (env_now env) i updates of
          Inl e \<Rightarrow> Inl e
        | Inr (campaign, d) \<Rightarrow>
            Inr (json_response 200 (CampaignBody campaign),
                 \<lparr> w_db = d,
                   w_clients = broadcastToUser uid (CampaignUpdated campaign) (w_clients w) \<rparr>,
                 []))
       (\<lambda>error. Inr (json_response 400 (MessageBody ''Failed to update campaign''), w, []))"
| "handle env (DeleteCampaign uid i) w =
     try_catch
       (case deleteCampaign (w_db w) i of
          Inl e \<Rightarrow> Inl e
        | Inr (u, d) \<Rightarrow> Inr (json_response 200 (SuccessBody True), w\<lparr>w_db := d\<rparr>, []))
       (\<lambda>error. Inr (json_response 500 (MessageBody ''Failed to delete campaign''), w, []))"
| "handle env (StartCampaign uid i) w =
     try_catch
       (case updateCampaign (w_db w) (env_now env) i
               (no_campaign_updates\<lparr> pc_status := Some ''running'',
                                      pc_progress := Some (Some 0) \<rparr>) of
          Inl e \<Rightarrow> Inl e
        | Inr (campaign, d) \<Rightarrow>
            Inr (json_response 200 (CampaignBody campaign), w\<lparr>w_db := d\<rparr>,
                 [simulateScraping i uid]))
       (\<lambda>error. Inr (json_response 500 (MessageBody ''Failed to start campaign''), w, []))"
| "handle env (GetLeads uid) w =
     try_catch
       (case getUserLeads (w_db w) uid of
          Inl e \<Rightarrow> Inl e
        | Inr (leads, d) \<Rightarrow> Inr (json_response 200 (LeadsBody leads), w, []))
       (\<lambda>error. Inr (json_response 500 (MessageBody ''Failed to fetch leads''), w, []))"
| "handle env (GetCampaignLeads uid i) w =
     try_catch
       (case getCampaignLeads (w_db w) i of
          Inl e \<Rightarrow> Inl e
        | Inr (leads, d) \<Rightarrow> Inr (json_response 200 (LeadsBody leads), w, []))
       (\<lambda>error. Inr (json_response 500 (MessageBody ''Failed to fetch campaign leads''), w, []))"
| "handle env (PatchLead uid i updates) w =
     try_catch
       (case updateLead (w_db w) (env_now env) i updates of
          Inl e \<Rightarrow> Inl e
        | Inr (lead, d) \<Rightarrow> Inr (json_response 200 (LeadBody lead), w\<lparr>w_db := d\<rparr>, []))
       (\<lambda>error. Inr (json_response 400 (MessageBody ''Failed to update lead''), w, []))"
| "handle env (GetStats uid) w =
     try_catch
       (case getLeadStats (env_toFixed1 env) (w_db w) uid of
          Inl e \<Rightarrow> Inl e
        | Inr (stats, d) \<Rightarrow> Inr (json_response 200 (StatsBody stats), w, []))
       (\<lambda>error. Inr (json_response 500 (MessageBody ''Failed to fetch stats''), w, []))"
| "handle env (PostFilesUpload uid upload) w =
     try_catch
       (case upload of
          None \<Rightarrow> Inr (json_response 400 (MessageBody ''No file uploaded''), w, [])
        | Some f \<Rightarrow>
            (case createFile (w_db w) (env_uuid env) (env_now env) uid f of
               Inl e \<Rightarrow> Inl e
             | Inr (file, d) \<Rightarrow> Inr (json_response 200 (FileBody file), w\<lparr>w_db := d\<rparr>, [])))
       (\<lambda>error. Inr (json_response 500 (MessageBody ''Failed to upload file''), w, []))"
| "handle env (GetFiles uid) w =
     try_catch
       (case getUserFiles (w_db w) uid of
          Inl e \<Rightarrow> Inl e
        | Inr (files, d) \<Rightarrow> Inr (json_response 200 (FilesBody files), w, []))
       (\<lambda>error. Inr (json_response 500 (MessageBody ''Failed to fetch files''), w, []))"
| "handle env (DownloadFile uid i) w =
     try_catch
       (case getFile (w_db w) i of
          Inl e \<Rightarrow> Inl e
        | Inr (None, d) \<Rightarrow> Inr (json_response 404 (MessageBody ''File not found''), w, [])
        | Inr (Some file, d) \<Rightarrow>
            if \<not> env_existsSync env (f_filePath file)
            then Inr (json_response 404 (MessageBody ''File not found on disk''), w, [])
            else Inr (json_response 200 (FileDownload file), w, []))
       (\<lambda>error. Inr (json_response 500 (MessageBody ''Failed to download file''), w, []))"

text \<open>Whether the storage call that a request makes throws.\<close>

fun storage_throws :: "req_env \<Rightarrow> request \<Rightarrow> db \<Rightarrow> bool" where
  "storage_throws env (GetAuthUser uid) d = isl (getUser d uid)"
| "storage_throws env (PostCampaigns uid parsed) d =
     (case parsed of
        Inl e \<Rightarrow> False
      | Inr campaignData \<Rightarrow> isl (createCampaign d (env_uuid env) (env_now env) uid campaignData))"
| "storage_throws env (GetCampaigns uid) d = isl (getUserCampaigns d uid)"
| "storage_throws env (GetCampaign uid i) d = isl (getCampaign d i)"
| "storage_throws env (PatchCampaign uid i updates) d =
     isl (updateCampaign d (env_now env) i updates)"
| "storage_throws env (DeleteCampaign uid i) d = isl (deleteCampaign d i)"
| "storage_throws env (StartCampaign uid i) d =
     isl (updateCampaign d (env_now env) i
            (no_campaign_updates\<lparr> pc_status := Some ''running'',
                                   pc_progress := Some (Some 0) \<rparr>))"
| "storage_throws env (GetLeads uid) d = isl (getUserLeads d uid)"
| "storage_throws env (GetCampaignLeads uid i) d = isl (getCampaignLeads d i)"
| "storage_throws env (PatchLead uid i updates) d = isl (updateLead d (env_now env) i updates)"
| "storage_throws env (GetStats uid) d = isl (getLeadStats (env_toFixed1 env) d uid)"
| "storage_throws env (PostFilesUpload uid upload) d =
     (case upload of
        None \<Rightarrow> False
      | Some f \<Rightarrow> isl (createFile d (env_uuid env) (env_now env) uid f))"
| "storage_throws env (GetFiles uid) d = isl (getUserFiles d uid)"
| "storage_throws env (DownloadFile uid i) d = isl (getFile d i)"

section \<open>Example states\<close>

text \<open>
  Two users \<open>u1\<close> and \<open>u2\<close>, a campaign of \<open>u1\<close> in status draft, and one lead of
  the campaign. Of decimal texts the example database takes \<open>1.5\<close> only.
\<close>

definition example_user :: User where
  "example_user =
     \<lparr> u_id = ''u1'', u_email = None, u_firstName = None, u_lastName = None,
       u_profileImageUrl = None, u_createdAt = None, u_updatedAt = None \<rparr>"

definition example_campaign :: Campaign where
  "example_campaign =
     \<lparr> c_id = ''c1'', c_userId = ''u1'', c_name = ''Dentists'', c_businessCategory = ''dentist'',
       c_location = ''Austin'', c_radius = 10, c_scrapingMode = ''standard'',
       c_pageLimit = Some 50, c_delay = Some ''1.5'', c_status = ''draft'',
       c_progress = Some 0, c_totalPages = Some 0, c_leadsFound = Some 0,
       c_createdAt = Some 1000, c_updatedAt = Some 1000 \<rparr>"

definition example_lead :: Lead where
  "example_lead =
     \<lparr> l_id = ''l1'', l_campaignId = ''c1'', l_businessName = ''Business 1'',
       l_category = Some ''Sample Category'', l_phone = None, l_email = None,
       l_website = None, l_address = None, l_city = Some ''Sample City'',
       l_state = Some ''SC'', l_zipCode = None, l_rating = None, l_reviewCount = None,
       l_isValidated = Some True, l_isDuplicate = Some False, l_notes = None,
       l_tags = None, l_contactStatus = Some ''not_contacted'',
       l_createdAt = Some 2000, l_updatedAt = Some 2000 \<rparr>"

definition db_without_leads :: db where
  "db_without_leads =
     \<lparr> db_connected = True,
       db_numeric_in = (\<lambda>precision scale t. if t = ''1.5'' then Some ''1.5'' else None),
       db_users = [example_user, example_user\<lparr>u_id := ''u2''\<rparr>],
       db_campaigns = [example_campaign], db_leads = [], db_files = [] \<rparr>"

definition db_with_lead :: db where
  "db_with_lead = db_without_leads\<lparr>db_leads := [example_lead]\<rparr>"

definition example_env :: req_env where
  "example_env =
     \<lparr> env_now = 5000, env_uuid = ''id-1'', env_toFixed1 = (\<lambda>validated total. ''0.0''),
       env_existsSync = (\<lambda>path. True) \<rparr>"

text \<open>
  Two connections are opened; the second authenticates as \<open>u1\<close>, the first sends a
  message that is no auth message; then the server broadcasts to \<open>u1\<close>.
\<close>

definition example_connections :: "ws_event list" where
  "example_connections =
     [Connection, Connection,
      Message 1 (Inr (JObject [(''type'', JString ''auth''), (''userId'', JString ''u1'')])),
      Message 0 (Inr (JObject [(''type'', JString ''ping'')]))]"

definition example_events :: "ws_event list" where
  "example_events = example_connections @ [Broadcast ''u1'' (ScrapingCompleted ''c1'')]"

text \<open>
  The environment of the \<open>k\<close>-th firing of a timer: the random value 1/2 adds 3 to the
  counter, the first lead of a tick is not validated and the second is, and the generated
  keys are fresh.
\<close>

definition example_tick :: "int \<Rightarrow> tick_env" where
  "example_tick k =
     \<lparr> rand_found = 1 / 2,
       rand_validated = (\<lambda>i. if i = 0 then 1 / 5 else 4 / 5),
       lead_uuid = (\<lambda>i. ''lead-'' @ number_to_string (2 * k + i)),
       tick_now = 10000 + 2000 * k \<rparr>"

definition example_world :: world where
  "example_world = \<lparr> w_db = db_without_leads, w_clients = wss_run example_connections \<rparr>"

text \<open>
  Ten firings; a firing whose inserts are given a primary key that is taken, and one
  where only the second insert is; a database from which the campaign has been deleted.
\<close>

definition example_run :: "tick_env list" where
  "example_run = map example_tick [1, 2, 3, 4, 5, 6, 7, 8, 9, 10]"

definition colliding_tick :: tick_env where
  "colliding_tick = (example_tick 1)\<lparr>lead_uuid := (\<lambda>i. ''l1'')\<rparr>"

definition late_colliding_tick :: tick_env where
  "late_colliding_tick =
     (example_tick 1)\<lparr>lead_uuid := (\<lambda>i. if i = 0 then ''lead-3'' else ''l1'')\<rparr>"

definition db_campaign_deleted :: db where
  "db_campaign_deleted = db_without_leads\<lparr>db_campaigns := []\<rparr>"

section \<open>The connection registry: who receives a broadcast\<close>

lemma on_message_sent [simp]: "sent (on_message p ws) = sent ws"
  by (simp add: on_message_def split: sum.splits)

lemma on_message_readyState [simp]: "readyState (on_message p ws) = readyState ws"
  by (simp add: on_message_def split: sum.splits)

lemma on_message_not_auth:
  "\<not> is_auth_message p \<Longrightarrow> userId (on_message p ws) = userId ws"
proof (cases p)
  case (Inl e)
  then show ?thesis by (simp add: on_message_def)
next
  case (Inr data)
  assume na: "\<not> is_auth_message p"
  show ?thesis
  proof (cases data)
    case (JObject kvs)
    with Inr na show ?thesis
      by (cases "map_of kvs ''userId''") (auto simp: on_message_def)
  qed (simp_all add: Inr on_message_def)
qed

lemma length_broadcastToUser [simp]: "length (broadcastToUser uid m cs) = length cs"
  by (simp add: broadcastToUser_def)

lemma broadcast_untagged:
  "i < length cs \<Longrightarrow> userId (cs ! i) = None \<Longrightarrow> broadcastToUser uid m cs ! i = cs ! i"
  by (simp add: broadcastToUser_def)

lemma wss_run_snoc: "wss_run (evs @ [ev]) = wss_step (wss_run evs) ev"
  by (simp add: wss_run_def)

lemma length_wss_step:
  "length (wss_step cs ev) = (if ev = Connection then Suc (length cs) else length cs)"
  by (cases ev) simp_all

text \<open>
  The invariant of the registry: a connection that has sent no auth message so far has
  no tag and has been sent nothing.
\<close>

lemma untagged_invariant:
  "\<forall>i < length (wss_run evs). (\<forall>p. Message i p \<in> set evs \<longrightarrow> \<not> is_auth_message p)
      \<longrightarrow> userId (wss_run evs ! i) = None \<and> sent (wss_run evs ! i) = []"
proof (induction evs rule: rev_induct)
  case Nil
  then show ?case by (simp add: wss_run_def)
next
  case (snoc ev evs)
  show ?case
  proof (intro allI impI)
    fix i
    assume len: "i < length (wss_run (evs @ [ev]))"
      and na: "\<forall>p. Message i p \<in> set (evs @ [ev]) \<longrightarrow> \<not> is_auth_message p"
    let ?cs = "wss_run evs"
    have prev: "i < length ?cs \<Longrightarrow> userId (?cs ! i) = None \<and> sent (?cs ! i) = []"
      using snoc.IH na by simp
    have old: "ev \<noteq> Connection \<Longrightarrow> i < length ?cs"
      using len by (simp add: wss_run_snoc length_wss_step)
    show "userId (wss_run (evs @ [ev]) ! i) = None \<and> sent (wss_run (evs @ [ev]) ! i) = []"
    proof (cases ev)
      case Connection
      then show ?thesis using len prev
        by (cases "i < length ?cs") (auto simp: wss_run_snoc nth_append)
    next
      case (Message j p)
      then show ?thesis using old prev na
        by (cases "j = i") (auto simp: wss_run_snoc on_message_not_auth)
    next
      case (Close j)
      then show ?thesis using old prev
        by (cases "j = i") (auto simp: wss_run_snoc)
    next
      case (Broadcast uid m)
      then show ?thesis using old prev
        by (simp add: wss_run_snoc broadcast_untagged)
    qed
  qed
qed

text \<open>
  Claim C2. From the start of the server, through any sequence of connections, messages,
  closes and broadcasts to any user ids: a connection that has sent no message of the form
  \<^verbatim>\<open>{type: "auth", userId}\<close> carries no user id tag and has been sent no message.
\<close>

theorem unauthenticated_connection_receives_nothing:
  assumes "\<forall>p. Message i p \<in> set events \<longrightarrow> \<not> is_auth_message p"
    and "i < length (wss_run events)"
  shows "userId (wss_run events ! i) = None \<and> sent (wss_run events ! i) = []"
  using untagged_invariant assms by blast

theorem unauthenticated_connection_receives_nothing_witness:
  "sent (wss_run example_events ! 0) = []
   \<and> sent (wss_run example_events ! 1) = [ScrapingCompleted ''c1'']"
proof -
  have quiet: "\<forall>p. Message 0 p \<in> set example_events \<longrightarrow> \<not> is_auth_message p"
    by (simp add: example_events_def example_connections_def)
  have run: "wss_run example_events =
      [\<lparr> readyState = OPEN, userId = None, sent = [] \<rparr>,
       \<lparr> readyState = OPEN, userId = Some (JString ''u1''), sent = [ScrapingCompleted ''c1''] \<rparr>]"
    by (simp add: example_events_def example_connections_def wss_run_def on_message_def
        broadcastToUser_def)
  have present: "0 < length (wss_run example_events)"
    by (simp add: run)
  from unauthenticated_connection_receives_nothing [OF quiet present] run
  show ?thesis by simp
qed

section \<open>Storage: deleting and updating campaigns\<close>


lemma find_rewritten:
  assumes "\<And>c. c_id c = i \<Longrightarrow> c_id (f c) = i"
  shows "find (\<lambda>c. c_id c = i) (map (\<lambda>c. if c_id c = i then f c else c) xs)
           = map_option f (find (\<lambda>c. c_id c = i) xs)"
  using assms by (induction xs) auto

lemma c_id_set_campaign: "pc_id s = None \<Longrightarrow> c_id (set_campaign s c) = c_id c"
  by (simp add: set_campaign_def)


lemma campaign_values_ok_updatedAt [simp]:
  "campaign_values_ok d (u\<lparr>pc_updatedAt := x\<rparr>) = campaign_values_ok d u"
  by (simp add: campaign_values_ok_def)


lemma stored_campaign_values_keys [simp]:
  "pc_id (stored_campaign_values d u) = pc_id u"
  "pc_userId (stored_campaign_values d u) = pc_userId u"
  "pc_status (stored_campaign_values d u) = pc_status u"
  by (simp_all add: stored_campaign_values_def)

lemma stored_campaign_values_no_delay:
  "pc_delay u = None \<Longrightarrow> stored_campaign_values d u = u"
  by (simp add: stored_campaign_values_def)

lemma find_Some_key:
  "find (\<lambda>c. c_id c = i) xs = Some c \<Longrightarrow> c \<in> set xs \<and> c_id c = i"
  by (induction xs) (auto split: if_splits)

lemma found_sendable:
  "find (\<lambda>c. c_id c = i) xs = Some c \<Longrightarrow> sendable (map c_id xs) i"
  using find_Some_key [of i xs c] by (auto simp: sendable_def)


text \<open>
  Claim C3, as amended. \<open>deleteCampaign\<close> never deletes or changes a lead row: when it
  returns, the leads table is as before and no campaign has the id. For a campaign that
  has lead rows the statement is rejected by the foreign key of \<open>leads.campaign_id\<close>,
  which is declared without a delete action: the call throws, and the campaign stays as
  well.
\<close>

theorem deleteCampaign_keeps_leads:
  "(db_connected d \<and> i \<in> set (map c_id (db_campaigns d))
      \<and> i \<in> set (map l_campaignId (db_leads d))
     \<longrightarrow> deleteCampaign d i = Inl ForeignKeyViolation)
   \<and> (\<forall>u d'. deleteCampaign d i = Inr (u, d')
     \<longrightarrow> db_leads d' = db_leads d
         \<and> find (\<lambda>c. c_id c = i) (db_campaigns d') = None
         \<and> (i \<notin> set (map c_id (db_campaigns d)) \<or> i \<notin> set (map l_campaignId (db_leads d))))"
  by (auto simp: deleteCampaign_def sendable_def find_None_iff split: if_splits)

theorem deleteCampaign_keeps_leads_witness:
  "deleteCampaign db_with_lead ''c1'' = Inl ForeignKeyViolation
   \<and> deleteCampaign db_without_leads ''c1'' = Inr ((), db_without_leads\<lparr>db_campaigns := []\<rparr>)
   \<and> db_leads (db_without_leads\<lparr>db_campaigns := []\<rparr>) = db_leads db_without_leads"
  using deleteCampaign_keeps_leads [of db_with_lead "''c1''"]
    deleteCampaign_keeps_leads [of db_without_leads "''c1''"]
  by (simp add: deleteCampaign_def sendable_def db_with_lead_def db_without_leads_def
      example_campaign_def example_lead_def)

text \<open>
  The claim as stated fails: the example campaign has a lead, and deleting it throws and
  leaves the campaign in the table.
\<close>

theorem deleteCampaign_with_leads_counterexample:
  "''c1'' \<in> set (map l_campaignId (db_leads db_with_lead))
   \<and> deleteCampaign db_with_lead ''c1'' = Inl ForeignKeyViolation
   \<and> find (\<lambda>c. c_id c = ''c1'') (db_campaigns db_with_lead) = Some example_campaign"
  by (simp add: deleteCampaign_def sendable_def db_with_lead_def db_without_leads_def
      example_campaign_def example_lead_def)

section \<open>Routes\<close>










lemma handle_returns:
  "\<exists>resp w' ts. handle env r w = Inr (resp, w', ts)"
  by (cases r) (auto simp: try_catch_def split: sum.splits prod.splits option.splits)

lemma handle_storage_throws:
  "storage_throws env r (w_db w) \<Longrightarrow> handle env r w = Inr (resp, w', ts)
     \<Longrightarrow> res_status resp \<in> {400, 500} \<and> w' = w \<and> ts = []"
  by (cases r)
    (auto simp: try_catch_def json_response_def isl_def split: sum.splits prod.splits option.splits)

lemma handle_error_body:
  "handle env r w = Inr (resp, w', ts) \<Longrightarrow> 400 \<le> res_status resp
     \<Longrightarrow> \<exists>m. res_body resp = MessageBody m"
  by (cases r)
    (auto simp: try_catch_def json_response_def split: sum.splits prod.splits option.splits if_splits)

lemma handle_same_failure:
  "storage_throws env r (w_db w) \<Longrightarrow> storage_throws env2 r (w_db w2)
     \<Longrightarrow> handle env r w = Inr (resp, w', ts) \<Longrightarrow> handle env2 r w2 = Inr (resp2, w2', ts2)
     \<Longrightarrow> resp2 = resp"
  by (cases r)
    (auto simp: try_catch_def json_response_def isl_def split: sum.splits prod.splits option.splits)

lemma get_campaign_404:
  "handle env (GetCampaign uid i) w = Inr (resp, w', ts) \<Longrightarrow>
     (res_status resp = 404) =
       (\<not> storage_throws env (GetCampaign uid i) (w_db w)
         \<and> find (\<lambda>c. c_id c = i) (db_campaigns (w_db w)) = None)"
  by (auto simp: try_catch_def json_response_def getCampaign_def split: if_splits)

text \<open>
  Claim C8. Every route returns a response, whatever the storage does (no error leaves a
  handler). When the storage call of the request throws, the response has status 400 or
  500, and the world is unchanged; a response with an error status carries a message and
  nothing else; the response to a failed storage call is the same whatever the error and
  the state, so it classifies nothing. \<^verbatim>\<open>GET /api/campaigns/:id\<close> answers 404 exactly
  when its storage call returns and no campaign has the id.
\<close>

theorem routes_answer_storage_errors:
  "\<exists>resp w' ts. handle env r w = Inr (resp, w', ts)
     \<and> (storage_throws env r (w_db w) \<longrightarrow> res_status resp \<in> {400, 500} \<and> w' = w \<and> ts = [])
     \<and> (400 \<le> res_status resp \<longrightarrow> (\<exists>m. res_body resp = MessageBody m))
     \<and> (\<forall>env2 w2 resp2 w2' ts2.
           storage_throws env r (w_db w) \<and> storage_throws env2 r (w_db w2)
             \<and> handle env2 r w2 = Inr (resp2, w2', ts2)
           \<longrightarrow> resp2 = resp)
     \<and> (\<forall>uid i. r = GetCampaign uid i \<longrightarrow>
           (res_status resp = 404) =
             (\<not> storage_throws env r (w_db w)
               \<and> find (\<lambda>c. c_id c = i) (db_campaigns (w_db w)) = None))"
proof -
  obtain resp w' ts where h: "handle env r w = Inr (resp, w', ts)"
    using handle_returns by blast
  have "storage_throws env r (w_db w) \<longrightarrow> res_status resp \<in> {400, 500} \<and> w' = w \<and> ts = []"
    using handle_storage_throws [OF _ h] by blast
  moreover have "400 \<le> res_status resp \<longrightarrow> (\<exists>m. res_body resp = MessageBody m)"
    using handle_error_body [OF h] by blast
  moreover have "\<forall>env2 w2 resp2 w2' ts2.
           storage_throws env r (w_db w) \<and> storage_throws env2 r (w_db w2)
             \<and> handle env2 r w2 = Inr (resp2, w2', ts2)
           \<longrightarrow> resp2 = resp"
    using handle_same_failure [OF _ _ h] by blast
  moreover have "\<forall>uid i. r = GetCampaign uid i \<longrightarrow>
           (res_status resp = 404) =
             (\<not> storage_throws env r (w_db w)
               \<and> find (\<lambda>c. c_id c = i) (db_campaigns (w_db w)) = None)"
    using get_campaign_404 h by blast
  ultimately show ?thesis
    using h by blast
qed

theorem routes_answer_storage_errors_witness:
  "storage_throws example_env (GetCampaign ''u1'' ''c1'') (db_with_lead\<lparr>db_connected := False\<rparr>)
   \<and> handle example_env (GetCampaign ''u1'' ''c1'')
         \<lparr> w_db = db_with_lead\<lparr>db_connected := False\<rparr>, w_clients = [] \<rparr>
       = Inr (json_response 500 (MessageBody ''Failed to fetch campaign''),
              \<lparr> w_db = db_with_lead\<lparr>db_connected := False\<rparr>, w_clients = [] \<rparr>, [])
   \<and> handle example_env (GetCampaign ''u1'' ''c2'') \<lparr> w_db = db_with_lead, w_clients = [] \<rparr>
       = Inr (json_response 404 (MessageBody ''Campaign not found''),
              \<lparr> w_db = db_with_lead, w_clients = [] \<rparr>, [])"
  using routes_answer_storage_errors
    [of example_env "GetCampaign ''u1'' ''c1''"
        "\<lparr> w_db = db_with_lead\<lparr>db_connected := False\<rparr>, w_clients = [] \<rparr>"]
    routes_answer_storage_errors
    [of example_env "GetCampaign ''u1'' ''c2''" "\<lparr> w_db = db_with_lead, w_clients = [] \<rparr>"]
  by (simp add: try_catch_def getCampaign_def sendable_def text_ok_def db_with_lead_def
      db_without_leads_def example_campaign_def)

text \<open>
  Claim C9. The three by-id routes do not look at the requesting user: for users \<open>a\<close>
  and \<open>b\<close>, the same id and the same body, the response and the effect are the same. In
  particular any user who asks for a campaign by its id receives it, whoever owns it.
\<close>

theorem by_id_routes_ignore_user:
  "handle env (GetCampaign a i) w = handle env (GetCampaign b i) w
   \<and> handle env (GetCampaignLeads a i) w = handle env (GetCampaignLeads b i) w
   \<and> handle env (PatchLead a i updates) w = handle env (PatchLead b i updates) w
   \<and> (db_connected (w_db w) \<and> find (\<lambda>c. c_id c = i) (db_campaigns (w_db w)) = Some c
        \<longrightarrow> handle env (GetCampaign a i) w = Inr (json_response 200 (CampaignBody (Some c)), w, []))"
  by (auto simp: try_catch_def getCampaign_def found_sendable)

theorem by_id_routes_ignore_user_witness:
  "c_userId example_campaign = ''u1''
   \<and> handle example_env (GetCampaign ''u2'' ''c1'') \<lparr> w_db = db_with_lead, w_clients = [] \<rparr>
       = Inr (json_response 200 (CampaignBody (Some example_campaign)),
              \<lparr> w_db = db_with_lead, w_clients = [] \<rparr>, [])"
  using by_id_routes_ignore_user
    [of example_env "''u2''" "''c1''" "\<lparr> w_db = db_with_lead, w_clients = [] \<rparr>" "''u1''"
        no_lead_updates example_campaign]
  by (simp add: db_with_lead_def db_without_leads_def example_campaign_def)

section \<open>The simulator: counters\<close>

lemma increment_range:
  assumes "0 \<le> rand_found e" and "rand_found e < 1"
  shows "1 \<le> \<lfloor>rand_found e * 5\<rfloor> + 1 \<and> \<lfloor>rand_found e * 5\<rfloor> + 1 \<le> 5"
proof -
  have "0 \<le> rand_found e * 5" using assms by simp
  then have lo: "0 \<le> \<lfloor>rand_found e * 5\<rfloor>" by simp
  have "rand_found e * 5 < 5" using assms by simp
  then have "\<lfloor>rand_found e * 5\<rfloor> < 5" by (simp add: floor_less_iff)
  with lo show ?thesis by simp
qed

lemma tick_counters:
  "currentPage (fst (tick e t w)) = currentPage t + 1
   \<and> leadsFound (fst (tick e t w)) = leadsFound t + (\<lfloor>rand_found e * 5\<rfloor> + 1)
   \<and> sim_campaignId (fst (tick e t w)) = sim_campaignId t
   \<and> sim_userId (fst (tick e t w)) = sim_userId t"
  by (simp add: tick_def Let_def split: sum.splits prod.splits outcome.splits)

lemma tick_timer_before_end:
  "currentPage t + 1 < totalPages \<Longrightarrow>
     fst (tick e t w) = t\<lparr> currentPage := currentPage t + 1,
                           leadsFound := leadsFound t + (\<lfloor>rand_found e * 5\<rfloor> + 1) \<rparr>"
  by (simp add: tick_def Let_def split: sum.splits prod.splits outcome.splits)

lemma fire_not_set: "\<not> interval_set t \<Longrightarrow> fire mode es t w = (t, w, [])"
  by (cases es) simp_all

lemma process_exit_timer [simp]:
  "interval_set (fst (process_exit t w)) = False"
  "leadsFound (fst (process_exit t w)) = leadsFound t"
  "currentPage (fst (process_exit t w)) = currentPage t"
  by (simp_all add: process_exit_def)

text \<open>One firing of a timer whose interval is set, by cases of how the firing ends.\<close>

lemma fire_Cons_cases:
  assumes "interval_set t" and "tick e t w = (t1, w1, out)"
  obtains (exit) "out \<noteq> Returned" and "mode = ExitProcess"
      and "fire mode (e # es) t w = (fst (process_exit t1 w1), snd (process_exit t1 w1), [out])"
  | (continue) t2 w2 outs where "out = Returned \<or> mode = KeepRunning"
      and "fire mode es t1 w1 = (t2, w2, outs)"
      and "fire mode (e # es) t w = (t2, w2, out # outs)"
proof (cases "out \<noteq> Returned \<and> mode = ExitProcess")
  case True
  have "fire mode (e # es) t w = (fst (process_exit t1 w1), snd (process_exit t1 w1), [out])"
    using assms True by (simp split: prod.splits)
  with True show ?thesis
    using exit by blast
next
  case False
  obtain t2 w2 outs where fr: "fire mode es t1 w1 = (t2, w2, outs)"
    by (cases "fire mode es t1 w1") auto
  have alt: "out = Returned \<or> mode = KeepRunning"
    using False by (cases mode) auto
  have "fire mode (e # es) t w = (t2, w2, out # outs)"
    using assms False fr by auto
  with alt fr show ?thesis
    by (rule continue)
qed

lemma fire_append:
  "fire mode (es1 @ es2) t w =
     (case fire mode es1 t w of (t1, w1, o1) \<Rightarrow>
        (case fire mode es2 t1 w1 of (t2, w2, o2) \<Rightarrow> (t2, w2, o1 @ o2)))"
proof (induction es1 arbitrary: t w)
  case Nil
  then show ?case by (simp split: prod.splits)
next
  case (Cons e es1)
  show ?case
  proof (cases "interval_set t")
    case False
    then show ?thesis by (simp add: fire_not_set)
  next
    case True
    obtain t1 w1 out where tk: "tick e t w = (t1, w1, out)"
      by (cases "tick e t w") auto
    from True tk show ?thesis
    proof (cases rule: fire_Cons_cases [where mode = mode and es = es1])
      case exit
      have "fire mode (e # es1 @ es2) t w
          = (fst (process_exit t1 w1), snd (process_exit t1 w1), [out])"
        using True tk exit(1,2) by (simp split: prod.splits)
      moreover have "fire mode es2 (fst (process_exit t1 w1)) (snd (process_exit t1 w1))
          = (fst (process_exit t1 w1), snd (process_exit t1 w1), [])"
        by (rule fire_not_set) simp
      ultimately show ?thesis
        using exit(3) by simp
    next
      case (continue ta wa oa)
      obtain tb wb ob where f2: "fire mode es2 ta wa = (tb, wb, ob)"
        by (cases "fire mode es2 ta wa") auto
      have "fire mode (es1 @ es2) t1 w1 = (tb, wb, oa @ ob)"
        using Cons.IH [of t1 w1] continue(2) f2 by simp
      moreover have "\<not> (out \<noteq> Returned \<and> mode = ExitProcess)"
        using continue(1) by auto
      ultimately have "fire mode (e # es1 @ es2) t w = (tb, wb, out # oa @ ob)"
        using True tk by auto
      then show ?thesis
        using continue(3) f2 by simp
    qed
  qed
qed

lemma fire_leadsFound_mono:
  "\<forall>e\<in>set es. 0 \<le> rand_found e \<and> rand_found e < 1 \<Longrightarrow>
     leadsFound t \<le> leadsFound (fst (fire mode es t w))"
proof (induction es arbitrary: t w)
  case Nil
  then show ?case by simp
next
  case (Cons e es)
  show ?case
  proof (cases "interval_set t")
    case False
    then show ?thesis by simp
  next
    case True
    obtain t' w' out where tk: "tick e t w = (t', w', out)"
      by (cases "tick e t w") auto
    have a: "leadsFound t' = leadsFound t + (\<lfloor>rand_found e * 5\<rfloor> + 1)"
      using tick_counters [of e t w] tk by simp
    have b: "1 \<le> \<lfloor>rand_found e * 5\<rfloor> + 1"
      using increment_range [of e] Cons.prems by simp
    from True tk show ?thesis
    proof (cases rule: fire_Cons_cases [where mode = mode and es = es])
      case exit
      with a b show ?thesis by simp
    next
      case (continue t'' w'' outs)
      have c: "leadsFound t' \<le> leadsFound t''"
        using Cons.IH [of t' w'] Cons.prems continue(2) by simp
      from a b c have "leadsFound t \<le> leadsFound t''"
        by linarith
      with continue(3) show ?thesis
        by simp
    qed
  qed
qed

lemma fire_no_outcomes:
  "fire mode es t w = (t', w', []) \<Longrightarrow> fire mode' es t w = (t', w', [])"
  by (cases es) (auto split: if_splits prod.splits)

text \<open>
  A run whose last firing ran to its end has not seen the process exit, so it is the run
  of a process that keeps running.
\<close>

lemma fire_last_Returned:
  "fire mode es t w = (t', w', outs) \<Longrightarrow> outs \<noteq> [] \<Longrightarrow> last outs = Returned \<Longrightarrow>
     fire KeepRunning es t w = (t', w', outs)"
proof (induction es arbitrary: t w t' w' outs)
  case Nil
  then show ?case by simp
next
  case (Cons e es)
  have set: "interval_set t"
    using Cons.prems(1,2) by (auto split: if_splits)
  obtain t1 w1 out where tk: "tick e t w = (t1, w1, out)"
    by (cases "tick e t w") auto
  from set tk show ?case
  proof (cases rule: fire_Cons_cases [where mode = mode and es = es])
    case exit
    with Cons.prems show ?thesis by simp
  next
    case (continue t2 w2 os)
    with Cons.prems(1) have eqs: "t' = t2" "w' = w2" "outs = out # os"
      by simp_all
    have "fire KeepRunning es t1 w1 = (t2, w2, os)"
    proof (cases "os = []")
      case True
      with continue(2) show ?thesis
        using fire_no_outcomes by blast
    next
      case False
      with Cons.prems(3) eqs have "last os = Returned"
        by simp
      with Cons.IH [OF continue(2) False] show ?thesis .
    qed
    with set tk eqs show ?thesis
      by simp
  qed
qed

lemma fire_nonempty:
  "interval_set t \<Longrightarrow> es \<noteq> [] \<Longrightarrow> fire mode es t w = (t', w', outs) \<Longrightarrow> outs \<noteq> []"
  by (cases es) (auto split: if_splits prod.splits)

text \<open>
  Claim C6. With every value of \<^verbatim>\<open>Math.random()\<close> in \<open>[0, 1)\<close>: a tick raises the
  counter \<open>leadsFound\<close> of its run by an integer from 1 to 5, whatever the state; and
  within a run, the counter after \<open>j\<close> firings of the timer is at most the counter
  after \<open>k \<ge> j\<close> firings.
\<close>

theorem leadsFound_increases:
  assumes "\<forall>e\<in>set es. 0 \<le> rand_found e \<and> rand_found e < 1"
  shows "(\<forall>e\<in>set es. \<forall>t w. leadsFound (fst (tick e t w)) - leadsFound t \<in> {1..5})
    \<and> (\<forall>j k. j \<le> k \<longrightarrow>
          leadsFound (fst (fire mode (take j es) t0 w0))
            \<le> leadsFound (fst (fire mode (take k es) t0 w0)))"
proof (intro conjI ballI allI impI)
  fix e t w
  assume "e \<in> set es"
  then show "leadsFound (fst (tick e t w)) - leadsFound t \<in> {1..5}"
    using increment_range [of e] assms tick_counters [of e t w] by simp
next
  fix j k :: nat
  assume jk: "j \<le> k"
  have split: "take k es = take j es @ drop j (take k es)"
    using jk by (metis append_take_drop_id min.absorb1 take_take)
  obtain t1 w1 o1 where f1: "fire mode (take j es) t0 w0 = (t1, w1, o1)"
    by (cases "fire mode (take j es) t0 w0") auto
  have "\<forall>e\<in>set (drop j (take k es)). 0 \<le> rand_found e \<and> rand_found e < 1"
    using assms by (meson in_set_dropD in_set_takeD)
  then have "leadsFound t1 \<le> leadsFound (fst (fire mode (drop j (take k es)) t1 w1))"
    by (rule fire_leadsFound_mono)
  moreover have "fire mode (take k es) t0 w0 =
      (case fire mode (drop j (take k es)) t1 w1 of (t2, w2, o2) \<Rightarrow> (t2, w2, o1 @ o2))"
    using fire_append [of mode "take j es" "drop j (take k es)" t0 w0] split f1 by simp
  ultimately show "leadsFound (fst (fire mode (take j es) t0 w0))
      \<le> leadsFound (fst (fire mode (take k es) t0 w0))"
    using f1 by (simp split: prod.splits)
qed

theorem leadsFound_increases_witness:
  "leadsFound (fst (tick (example_tick 1) (simulateScraping ''c1'' ''u1'') example_world)) - 0 = 3
   \<and> leadsFound (fst (fire ExitProcess (take 1 [example_tick 1, example_tick 2])
                         (simulateScraping ''c1'' ''u1'') example_world)) = 3
   \<and> leadsFound (fst (fire ExitProcess (take 2 [example_tick 1, example_tick 2])
                         (simulateScraping ''c1'' ''u1'') example_world)) = 6"
proof -
  have valid: "\<forall>e\<in>set [example_tick 1, example_tick 2]. 0 \<le> rand_found e \<and> rand_found e < 1"
    by (simp add: example_tick_def)
  have "leadsFound (fst (fire ExitProcess (take 1 [example_tick 1, example_tick 2])
                         (simulateScraping ''c1'' ''u1'') example_world)) = 3"
    by code_simp
  moreover have "leadsFound (fst (fire ExitProcess (take 2 [example_tick 1, example_tick 2])
                         (simulateScraping ''c1'' ''u1'') example_world)) = 6"
    by code_simp
  moreover have "leadsFound (fst (tick (example_tick 1) (simulateScraping ''c1'' ''u1'') example_world)) - 0 = 3"
    by code_simp
  ultimately show ?thesis
    using leadsFound_increases [OF valid, of ExitProcess "simulateScraping ''c1'' ''u1''" example_world]
    by simp
qed

section \<open>The simulator: one tick\<close>

lemma filter_find: "filter P xs = c # rest \<Longrightarrow> find P xs = Some c"
  by (induction xs) (auto split: if_splits)

lemma updateCampaign_keeps_key:
  assumes "pc_id u = None" and "pc_userId u = None" and "pc_delay u = None"
  shows "updateCampaign d now i u =
     (if pc_createdAt u = Some (Some NotADate) then Inl TypeError
      else if \<not> db_connected d then Inl ConnectionError
      else if \<not> sendable (map c_id (db_campaigns d)) i \<or> \<not> campaign_values_ok d u
        then Inl DataException
      else Inr (map_option (set_campaign (u\<lparr>pc_updatedAt := Some (Some (Date now))\<rparr>))
                  (find (\<lambda>c. c_id c = i) (db_campaigns d)),
                d\<lparr>db_campaigns := map (\<lambda>c. if c_id c = i
                        then set_campaign (u\<lparr>pc_updatedAt := Some (Some (Date now))\<rparr>) c else c)
                      (db_campaigns d)\<rparr>))"
proof (cases "filter (\<lambda>c. c_id c = i) (db_campaigns d)")
  case Nil
  then have none: "\<forall>c\<in>set (db_campaigns d). c_id c \<noteq> i"
    by (simp add: filter_empty_conv)
  then have "find (\<lambda>c. c_id c = i) (db_campaigns d) = None"
    by (simp add: find_None_iff)
  moreover have "map (\<lambda>c. if c_id c = i
                        then set_campaign (u\<lparr>pc_updatedAt := Some (Some (Date now))\<rparr>) c else c)
                      (db_campaigns d) = db_campaigns d"
    using none by (simp add: map_idI)
  ultimately show ?thesis
    using Nil assms(3) by (simp add: updateCampaign_def Let_def stored_campaign_values_no_delay)
next
  case (Cons c rest)
  then have "find (\<lambda>c. c_id c = i) (db_campaigns d) = Some c"
    by (rule filter_find)
  then show ?thesis
    using Cons assms by (simp add: updateCampaign_def Let_def stored_campaign_values_no_delay)
qed

text \<open>The business names that the simulator writes are texts the column takes.\<close>

lemma text_ok_Nil: "text_ok []"
  by (simp add: text_ok_def)

lemma text_ok_Cons: "text_ok (c # s) = (c \<noteq> CHR 0x00 \<and> text_ok s)"
  by (auto simp: text_ok_def)

lemma digit_not_nul: "n < 10 \<Longrightarrow> digit n \<noteq> CHR 0x00"
proof -
  assume "n < 10"
  then have "digit n \<in> set ''0123456789''"
    unfolding digit_def by (intro nth_mem) simp
  then show ?thesis
    by auto
qed

lemma text_ok_decimal: "text_ok suffix \<Longrightarrow> text_ok (decimal n suffix)"
proof (induction n suffix rule: decimal.induct)
  case (1 n suffix)
  show ?case
  proof (cases "n < 10")
    case True
    then show ?thesis
      using "1.prems" by (simp add: decimal.simps [of n] text_ok_Cons digit_not_nul)
  next
    case False
    have "text_ok (digit (n mod 10) # suffix)"
      using "1.prems" by (simp add: text_ok_Cons digit_not_nul)
    then show ?thesis
      using False "1.IH" by (simp add: decimal.simps [of n])
  qed
qed

lemma text_ok_number_to_string: "text_ok (number_to_string i)"
  by (simp add: number_to_string_def text_ok_Cons text_ok_decimal text_ok_Nil)

lemma text_ok_business_name: "text_ok (''Business '' @ number_to_string i)"
  by (simp add: text_ok_Cons text_ok_number_to_string)

lemma createLead_Inr:
  "createLead d uuid now lead = Inr (l, d') \<Longrightarrow>
     db_connected d \<and> il_campaignId lead \<in> set (map c_id (db_campaigns d))
     \<and> uuid \<notin> set (map l_id (db_leads d))
     \<and> d' = d\<lparr>db_leads := db_leads d @ [l]\<rparr>
     \<and> l_id l = uuid \<and> l_campaignId l = il_campaignId lead
     \<and> l_businessName l = il_businessName lead
     \<and> l_category l = il_category lead \<and> l_city l = il_city lead \<and> l_state l = il_state lead
     \<and> l_isValidated l = assign (il_isValidated lead) (Some False)"
  by (auto simp: createLead_def Let_def split: if_splits)

lemma generate_leads_0:
  "generate_leads e cid found 0 d =
     (case createLead d (lead_uuid e 0) (tick_now e)
             (sample_lead cid found 0 (rand_validated e 0)) of
        Inl err \<Rightarrow> (Threw err, d)
      | Inr (l0, d1) \<Rightarrow>
          (case createLead d1 (lead_uuid e 1) (tick_now e)
                  (sample_lead cid found 1 (rand_validated e 1)) of
             Inl err \<Rightarrow> (Threw err, d1)
           | Inr (l1, d2) \<Rightarrow> (Returned, d2)))"
  by (simp add: generate_leads.simps [of _ _ _ 0] generate_leads.simps [of _ _ _ 1]
      generate_leads.simps [of _ _ _ 2] split: sum.splits prod.splits)

text \<open>What the loop has done when it returns.\<close>

lemma generate_leads_Returned:
  assumes "generate_leads e cid found 0 d = (Returned, d')"
  shows "\<exists>l0 l1. d' = d\<lparr>db_leads := db_leads d @ [l0, l1]\<rparr>
      \<and> db_connected d \<and> cid \<in> set (map c_id (db_campaigns d))
      \<and> l_id l0 = lead_uuid e 0 \<and> l_id l1 = lead_uuid e 1
      \<and> l_campaignId l0 = cid \<and> l_campaignId l1 = cid
      \<and> l_businessName l0 = ''Business '' @ number_to_string (found + 0)
      \<and> l_businessName l1 = ''Business '' @ number_to_string (found + 1)
      \<and> l_category l0 = Some ''Sample Category'' \<and> l_category l1 = Some ''Sample Category''
      \<and> l_city l0 = Some ''Sample City'' \<and> l_city l1 = Some ''Sample City''
      \<and> l_state l0 = Some ''SC'' \<and> l_state l1 = Some ''SC''
      \<and> l_isValidated l0 = Some (rand_validated e 0 > 3 / 10)
      \<and> l_isValidated l1 = Some (rand_validated e 1 > 3 / 10)"
proof -
  from assms obtain l0 d1 l1 where
    c0: "createLead d (lead_uuid e 0) (tick_now e)
           (sample_lead cid found 0 (rand_validated e 0)) = Inr (l0, d1)"
    and c1: "createLead d1 (lead_uuid e 1) (tick_now e)
           (sample_lead cid found 1 (rand_validated e 1)) = Inr (l1, d')"
    by (auto simp: generate_leads_0 split: sum.splits prod.splits)
  from createLead_Inr [OF c0] createLead_Inr [OF c1]
  show ?thesis
    by (intro exI [of _ l0] exI [of _ l1]) (simp add: sample_lead_def)
qed

lemma pc_keys_progress [simp]:
  "pc_id (no_campaign_updates\<lparr> pc_progress := a, pc_totalPages := b, pc_leadsFound := c \<rparr>) = None"
  "pc_userId (no_campaign_updates\<lparr> pc_progress := a, pc_totalPages := b, pc_leadsFound := c \<rparr>) = None"
  "pc_delay (no_campaign_updates\<lparr> pc_progress := a, pc_totalPages := b, pc_leadsFound := c \<rparr>) = None"
  "pc_createdAt (no_campaign_updates\<lparr> pc_progress := a, pc_totalPages := b, pc_leadsFound := c \<rparr>)
     = None"
  "pc_id (no_campaign_updates\<lparr> pc_status := s, pc_progress := a \<rparr>) = None"
  "pc_userId (no_campaign_updates\<lparr> pc_status := s, pc_progress := a \<rparr>) = None"
  "pc_delay (no_campaign_updates\<lparr> pc_status := s, pc_progress := a \<rparr>) = None"
  "pc_createdAt (no_campaign_updates\<lparr> pc_status := s, pc_progress := a \<rparr>) = None"
  by (simp_all add: no_campaign_updates_def)

lemma completion_values_ok:
  "campaign_values_ok d (no_campaign_updates\<lparr> pc_status := Some ''completed'',
                                               pc_progress := Some (Some 100) \<rparr>)"
  by (simp add: campaign_values_ok_def no_campaign_updates_def text_ok_def int4_ok_def)

lemma rewrite_twice:
  assumes "\<And>c. c_id c = i \<Longrightarrow> c_id (f c) = i"
  shows "map (\<lambda>c. if c_id c = i then g c else c) (map (\<lambda>c. if c_id c = i then f c else c) xs)
           = map (\<lambda>c. if c_id c = i then g (f c) else c) xs"
  using assms by (induction xs) auto

lemma ids_rewritten:
  assumes "\<And>c. c_id c = i \<Longrightarrow> c_id (f c) = i"
  shows "map c_id (map (\<lambda>c. if c_id c = i then f c else c) xs) = map c_id xs"
  using assms by (induction xs) auto

lemma tick_Returned:
  assumes tk: "tick e t w = (t', w', Returned)"
  defines "k \<equiv> currentPage t + 1"
    and "found \<equiv> leadsFound t + (\<lfloor>rand_found e * 5\<rfloor> + 1)"
    and "cid \<equiv> sim_campaignId t"
  defines "progress \<equiv> round (of_int k / of_int totalPages * (100 :: rat))"
  defines "u1 \<equiv> no_campaign_updates\<lparr> pc_progress := Some (Some progress),
                    pc_totalPages := Some (Some k), pc_leadsFound := Some (Some found),
                    pc_updatedAt := Some (Some (Date (tick_now e))) \<rparr>"
    and "u2 \<equiv> no_campaign_updates\<lparr> pc_status := Some ''completed'',
                    pc_progress := Some (Some 100),
                    pc_updatedAt := Some (Some (Date (tick_now e))) \<rparr>"
  defines "published \<equiv> broadcastToUser (sim_userId t)
                          (ScrapingProgress cid progress k totalPages found) (w_clients w)"
  shows "\<exists>l0 l1.
      w_db w' = (w_db w)\<lparr>
          db_campaigns := map (\<lambda>c. if c_id c = cid
              then (if k < totalPages then set_campaign u1 c
                    else set_campaign u2 (set_campaign u1 c))
              else c) (db_campaigns (w_db w)),
          db_leads := db_leads (w_db w) @ [l0, l1] \<rparr>
      \<and> w_clients w' = (if k < totalPages then published
                        else broadcastToUser (sim_userId t) (ScrapingCompleted cid) published)
      \<and> t' = t\<lparr> currentPage := k, leadsFound := found,
                 interval_set := (if k < totalPages then interval_set t else False) \<rparr>
      \<and> db_connected (w_db w) \<and> cid \<in> set (map c_id (db_campaigns (w_db w)))
      \<and> l_id l0 = lead_uuid e 0 \<and> l_id l1 = lead_uuid e 1
      \<and> l_campaignId l0 = cid \<and> l_campaignId l1 = cid
      \<and> l_businessName l0 = ''Business '' @ number_to_string (found + 0)
      \<and> l_businessName l1 = ''Business '' @ number_to_string (found + 1)
      \<and> l_category l0 = Some ''Sample Category'' \<and> l_category l1 = Some ''Sample Category''
      \<and> l_city l0 = Some ''Sample City'' \<and> l_city l1 = Some ''Sample City''
      \<and> l_state l0 = Some ''SC'' \<and> l_state l1 = Some ''SC''
      \<and> l_isValidated l0 = Some (rand_validated e 0 > 3 / 10)
      \<and> l_isValidated l1 = Some (rand_validated e 1 > 3 / 10)"
proof -
  let ?d1 = "(w_db w)\<lparr>db_campaigns :=
      map (\<lambda>c. if c_id c = cid then set_campaign u1 c else c) (db_campaigns (w_db w))\<rparr>"
  have sent: "db_connected (w_db w) \<and> sendable (map c_id (db_campaigns (w_db w))) cid
      \<and> campaign_values_ok (w_db w)
          (no_campaign_updates\<lparr> pc_progress := Some (Some progress),
             pc_totalPages := Some (Some k), pc_leadsFound := Some (Some found) \<rparr>)"
    using tk
    by (auto simp: tick_def Let_def updateCampaign_keeps_key k_def found_def cid_def
        progress_def split: if_splits)
  then have conn: "db_connected (w_db w)"
    by simp
  have up1: "updateCampaign (w_db w) (tick_now e) cid
        (no_campaign_updates\<lparr> pc_progress := Some (Some progress),
           pc_totalPages := Some (Some k), pc_leadsFound := Some (Some found) \<rparr>)
      = Inr (map_option (set_campaign u1) (find (\<lambda>c. c_id c = cid) (db_campaigns (w_db w))), ?d1)"
    using sent by (simp add: updateCampaign_keeps_key u1_def)
  obtain out d2 where gl: "generate_leads e cid found 0 ?d1 = (out, d2)"
    by (cases "generate_leads e cid found 0 ?d1") auto
  have out: "out = Returned"
    using tk up1 gl
    by (cases out)
      (auto simp: tick_def Let_def k_def found_def cid_def progress_def
        split: sum.splits prod.splits if_splits)
  from generate_leads_Returned [OF gl [unfolded out]] obtain l0 l1 where
    d2: "d2 = ?d1\<lparr>db_leads := db_leads ?d1 @ [l0, l1]\<rparr>"
    and facts: "cid \<in> set (map c_id (db_campaigns ?d1))"
      "l_id l0 = lead_uuid e 0" "l_id l1 = lead_uuid e 1"
      "l_campaignId l0 = cid" "l_campaignId l1 = cid"
      "l_businessName l0 = ''Business '' @ number_to_string (found + 0)"
      "l_businessName l1 = ''Business '' @ number_to_string (found + 1)"
      "l_category l0 = Some ''Sample Category''" "l_category l1 = Some ''Sample Category''"
      "l_city l0 = Some ''Sample City''" "l_city l1 = Some ''Sample City''"
      "l_state l0 = Some ''SC''" "l_state l1 = Some ''SC''"
      "l_isValidated l0 = Some (rand_validated e 0 > 3 / 10)"
      "l_isValidated l1 = Some (rand_validated e 1 > 3 / 10)"
    by blast
  have key1: "\<And>c. c_id c = cid \<Longrightarrow> c_id (set_campaign u1 c) = cid"
    by (simp add: c_id_set_campaign u1_def no_campaign_updates_def)
  have member: "cid \<in> set (map c_id (db_campaigns (w_db w)))"
    using facts(1) ids_rewritten [of cid "set_campaign u1" "db_campaigns (w_db w)"] key1
    by simp
  have up2: "updateCampaign d2 (tick_now e) cid
        (no_campaign_updates\<lparr> pc_status := Some ''completed'', pc_progress := Some (Some 100) \<rparr>)
      = Inr (map_option (set_campaign u2) (find (\<lambda>c. c_id c = cid) (db_campaigns d2)),
             d2\<lparr>db_campaigns := map (\<lambda>c. if c_id c = cid then set_campaign u2 c else c)
                                     (db_campaigns d2)\<rparr>)"
    using conn facts(1)
    by (simp add: updateCampaign_keeps_key u2_def d2 completion_values_ok sendable_def)
  have twice: "map (\<lambda>c. if c_id c = cid then set_campaign u2 c else c) (db_campaigns d2)
      = map (\<lambda>c. if c_id c = cid then set_campaign u2 (set_campaign u1 c) else c)
          (db_campaigns (w_db w))"
    using rewrite_twice [of cid "set_campaign u1" "set_campaign u2" "db_campaigns (w_db w)"] key1
    by (simp add: d2)
  have result: "w_db w' = (w_db w)\<lparr>
          db_campaigns := map (\<lambda>c. if c_id c = cid
              then (if k < totalPages then set_campaign u1 c
                    else set_campaign u2 (set_campaign u1 c))
              else c) (db_campaigns (w_db w)),
          db_leads := db_leads (w_db w) @ [l0, l1] \<rparr>
      \<and> w_clients w' = (if k < totalPages then published
                        else broadcastToUser (sim_userId t) (ScrapingCompleted cid) published)
      \<and> t' = t\<lparr> currentPage := k, leadsFound := found,
                 interval_set := (if k < totalPages then interval_set t else False) \<rparr>"
  proof (cases "k < totalPages")
    case True
    then show ?thesis
      using tk up1 gl out d2
      by (auto simp: tick_def Let_def k_def found_def cid_def progress_def published_def)
  next
    case False
    then show ?thesis
      using tk up1 gl out up2 twice
      by (auto simp: tick_def Let_def k_def found_def cid_def progress_def published_def d2)
  qed
  show ?thesis
    using result conn member facts(2-) by blast
qed

lemma round_progress: "round (of_int k / of_int totalPages * (100 :: rat)) = 10 * k"
proof -
  have "of_int k / of_int totalPages * (100 :: rat) = of_int (10 * k)"
    by (simp add: totalPages_def)
  then show ?thesis
    by (simp only: round_of_int)
qed

lemma find_member:
  "i \<in> set (map c_id xs) \<Longrightarrow> \<exists>c. find (\<lambda>c. c_id c = i) xs = Some c \<and> c_id c = i"
  by (induction xs) auto

lemma set_campaign_progress_fields:
  "c_progress (set_campaign (no_campaign_updates\<lparr> pc_progress := Some p,
       pc_totalPages := Some q, pc_leadsFound := Some r, pc_updatedAt := Some n \<rparr>) c) = p"
  "c_totalPages (set_campaign (no_campaign_updates\<lparr> pc_progress := Some p,
       pc_totalPages := Some q, pc_leadsFound := Some r, pc_updatedAt := Some n \<rparr>) c) = q"
  "c_leadsFound (set_campaign (no_campaign_updates\<lparr> pc_progress := Some p,
       pc_totalPages := Some q, pc_leadsFound := Some r, pc_updatedAt := Some n \<rparr>) c) = r"
  "c_id (set_campaign (no_campaign_updates\<lparr> pc_progress := Some p,
       pc_totalPages := Some q, pc_leadsFound := Some r, pc_updatedAt := Some n \<rparr>) c) = c_id c"
  by (simp_all add: set_campaign_def no_campaign_updates_def)

lemma set_campaign_completed_fields:
  "c_status (set_campaign (no_campaign_updates\<lparr> pc_status := Some s,
       pc_progress := Some p, pc_updatedAt := Some n \<rparr>) c) = s"
  "c_progress (set_campaign (no_campaign_updates\<lparr> pc_status := Some s,
       pc_progress := Some p, pc_updatedAt := Some n \<rparr>) c) = p"
  "c_totalPages (set_campaign (no_campaign_updates\<lparr> pc_status := Some s,
       pc_progress := Some p, pc_updatedAt := Some n \<rparr>) c) = c_totalPages c"
  "c_leadsFound (set_campaign (no_campaign_updates\<lparr> pc_status := Some s,
       pc_progress := Some p, pc_updatedAt := Some n \<rparr>) c) = c_leadsFound c"
  "c_id (set_campaign (no_campaign_updates\<lparr> pc_status := Some s,
       pc_progress := Some p, pc_updatedAt := Some n \<rparr>) c) = c_id c"
  by (simp_all add: set_campaign_def no_campaign_updates_def)

text \<open>The campaign row after a tick that ran to its end.\<close>

lemma tick_Returned_row:
  assumes tk: "tick e t w = (t', w', Returned)"
  shows "\<exists>c. find (\<lambda>c. c_id c = sim_campaignId t) (db_campaigns (w_db w')) = Some c
      \<and> c_totalPages c = Some (currentPage t + 1)
      \<and> c_leadsFound c = Some (leadsFound t + (\<lfloor>rand_found e * 5\<rfloor> + 1))
      \<and> (if currentPage t + 1 < totalPages
          then c_progress c = Some (10 * (currentPage t + 1))
          else c_progress c = Some 100 \<and> c_status c = ''completed'')"
proof -
  from tick_Returned [OF tk] obtain l0 l1 where
    db: "w_db w' = (w_db w)\<lparr>
          db_campaigns := map (\<lambda>c. if c_id c = sim_campaignId t
              then (if currentPage t + 1 < totalPages
                    then set_campaign (no_campaign_updates\<lparr>
                        pc_progress := Some (Some (round (of_int (currentPage t + 1)
                                                     / of_int totalPages * (100 :: rat)))),
                        pc_totalPages := Some (Some (currentPage t + 1)),
                        pc_leadsFound := Some (Some (leadsFound t + (\<lfloor>rand_found e * 5\<rfloor> + 1))),
                        pc_updatedAt := Some (Some (Date (tick_now e))) \<rparr>) c
                    else set_campaign (no_campaign_updates\<lparr> pc_status := Some ''completed'',
                        pc_progress := Some (Some 100),
                        pc_updatedAt := Some (Some (Date (tick_now e))) \<rparr>)
                      (set_campaign (no_campaign_updates\<lparr>
                        pc_progress := Some (Some (round (of_int (currentPage t + 1)
                                                     / of_int totalPages * (100 :: rat)))),
                        pc_totalPages := Some (Some (currentPage t + 1)),
                        pc_leadsFound := Some (Some (leadsFound t + (\<lfloor>rand_found e * 5\<rfloor> + 1))),
                        pc_updatedAt := Some (Some (Date (tick_now e))) \<rparr>) c))
              else c) (db_campaigns (w_db w)),
          db_leads := db_leads (w_db w) @ [l0, l1] \<rparr>"
    and mem: "sim_campaignId t \<in> set (map c_id (db_campaigns (w_db w)))"
    by blast
  from find_member [OF mem] obtain c0 where
    c0: "find (\<lambda>c. c_id c = sim_campaignId t) (db_campaigns (w_db w)) = Some c0"
    by blast
  note db' = db [unfolded round_progress]
  show ?thesis
    by (simp add: db' find_rewritten c0 set_campaign_progress_fields
        set_campaign_completed_fields del: of_int_add)
qed

section \<open>The simulator: a run\<close>

lemma fire_before_end:
  assumes "interval_set t" and "currentPage t + int (length es) < totalPages"
  shows "\<exists>w' outs. fire KeepRunning es t w =
           (t\<lparr> currentPage := currentPage t + int (length es),
                leadsFound := leadsFound t
                   + sum_list (map (\<lambda>e. \<lfloor>rand_found e * 5\<rfloor> + 1) es) \<rparr>, w', outs)
         \<and> length outs = length es"
  using assms
proof (induction es arbitrary: t w)
  case Nil
  then show ?case by simp
next
  case (Cons e es)
  let ?t1 = "t\<lparr> currentPage := currentPage t + 1,
                leadsFound := leadsFound t + (\<lfloor>rand_found e * 5\<rfloor> + 1) \<rparr>"
  have before: "currentPage t + 1 < totalPages"
    using Cons.prems by simp
  obtain w1 o1 where tk: "tick e t w = (?t1, w1, o1)"
    using tick_timer_before_end [OF before, of e w] by (cases "tick e t w") auto
  have "interval_set ?t1" and "currentPage ?t1 + int (length es) < totalPages"
    using Cons.prems by simp_all
  from Cons.IH [OF this, of w1] obtain w' outs where
    "fire KeepRunning es ?t1 w1 =
       (?t1\<lparr> currentPage := currentPage ?t1 + int (length es),
             leadsFound := leadsFound ?t1
                + sum_list (map (\<lambda>e. \<lfloor>rand_found e * 5\<rfloor> + 1) es) \<rparr>, w', outs)"
    and "length outs = length es"
    by blast
  then show ?case
    using Cons.prems(1) tk by (simp add: algebra_simps)
qed

lemma increments_range:
  "\<forall>e\<in>set es. 0 \<le> rand_found e \<and> rand_found e < 1 \<Longrightarrow>
     int (length es) \<le> sum_list (map (\<lambda>e. \<lfloor>rand_found e * 5\<rfloor> + 1) es)
     \<and> sum_list (map (\<lambda>e. \<lfloor>rand_found e * 5\<rfloor> + 1) es) \<le> 5 * int (length es)"
proof (induction es)
  case Nil
  then show ?case by simp
next
  case (Cons e es)
  have "1 \<le> \<lfloor>rand_found e * 5\<rfloor> + 1 \<and> \<lfloor>rand_found e * 5\<rfloor> + 1 \<le> 5"
    using increment_range [of e] Cons.prems by simp
  moreover have "int (length es) \<le> sum_list (map (\<lambda>e. \<lfloor>rand_found e * 5\<rfloor> + 1) es)
     \<and> sum_list (map (\<lambda>e. \<lfloor>rand_found e * 5\<rfloor> + 1) es) \<le> 5 * int (length es)"
    using Cons.IH Cons.prems by simp
  ultimately show ?case
    by (simp del: floor_add_int) linarith
qed

text \<open>Ten firings of a new timer, the tenth of which ran to its end.\<close>

lemma completed_run:
  assumes len: "length es = 10"
    and run: "fire KeepRunning es (simulateScraping cid uid) w = (t', w', outs)"
    and last: "last outs = Returned"
  shows "length outs = 10 \<and> \<not> interval_set t'
    \<and> (\<exists>c. find (\<lambda>c. c_id c = cid) (db_campaigns (w_db w')) = Some c
          \<and> c_status c = ''completed'' \<and> c_progress c = Some 100
          \<and> c_totalPages c = Some 10
          \<and> c_leadsFound c = Some (sum_list (map (\<lambda>e. \<lfloor>rand_found e * 5\<rfloor> + 1) es)))"
proof -
  let ?t0 = "simulateScraping cid uid"
  let ?es9 = "butlast es" and ?e10 = "last es"
  let ?s9 = "sum_list (map (\<lambda>e. \<lfloor>rand_found e * 5\<rfloor> + 1) ?es9)"
  let ?t9 = "?t0\<lparr> currentPage := currentPage ?t0 + int (length ?es9),
                  leadsFound := leadsFound ?t0 + ?s9 \<rparr>"
  have es: "es = ?es9 @ [?e10]" and len9: "length ?es9 = 9"
    using len by (auto simp: length_0_conv [symmetric] simp del: length_0_conv)
  have "interval_set ?t0" and "currentPage ?t0 + int (length ?es9) < totalPages"
    by (simp_all add: simulateScraping_def len totalPages_def)
  from fire_before_end [OF this, of w] obtain w9 outs9 where
    f9: "fire KeepRunning ?es9 ?t0 w = (?t9, w9, outs9)" and l9: "length outs9 = 9"
    using len9 by auto
  obtain t10 w10 o10 where tk: "tick ?e10 ?t9 w9 = (t10, w10, o10)"
    by (cases "tick ?e10 ?t9 w9") auto
  have set9: "interval_set ?t9"
    by (simp add: simulateScraping_def)
  have "fire KeepRunning es ?t0 w = (t10, w10, outs9 @ [o10])"
    using fire_append [of KeepRunning ?es9 "[?e10]" ?t0 w] es f9 tk set9 by simp
  with run have eqs: "t' = t10" "w' = w10" "outs = outs9 @ [o10]"
    by simp_all
  with last have "o10 = Returned"
    by simp
  with tk eqs have tk': "tick ?e10 ?t9 w9 = (t', w', Returned)"
    by simp
  have page: "currentPage ?t9 + 1 = 10" and cid: "sim_campaignId ?t9 = cid"
    by (simp_all add: simulateScraping_def len)
  have total: "leadsFound ?t9 + (\<lfloor>rand_found ?e10 * 5\<rfloor> + 1)
      = sum_list (map (\<lambda>e. \<lfloor>rand_found e * 5\<rfloor> + 1) es)"
  proof -
    have "sum_list (map (\<lambda>e. \<lfloor>rand_found e * 5\<rfloor> + 1) (?es9 @ [?e10]))
        = ?s9 + (\<lfloor>rand_found ?e10 * 5\<rfloor> + 1)"
      by simp
    then show ?thesis
      using es by (simp add: simulateScraping_def)
  qed
  have row: "\<exists>c. find (\<lambda>c. c_id c = cid) (db_campaigns (w_db w')) = Some c
          \<and> c_status c = ''completed'' \<and> c_progress c = Some 100
          \<and> c_totalPages c = Some 10
          \<and> c_leadsFound c = Some (sum_list (map (\<lambda>e. \<lfloor>rand_found e * 5\<rfloor> + 1) es))"
    using tick_Returned_row [OF tk'] page cid total
    by (auto simp: totalPages_def)
  have "\<not> interval_set t'"
    using tick_Returned [OF tk'] page by (auto simp: totalPages_def)
  with row l9 eqs show ?thesis
    by simp
qed

lemma fire_inserts:
  "fire mode es t w = (t', w', outs) \<Longrightarrow> \<forall>out\<in>set outs. out = Returned \<Longrightarrow>
     \<exists>new. db_leads (w_db w') = db_leads (w_db w) @ new
          \<and> length new = 2 * length outs
          \<and> (\<forall>l\<in>set new. l_campaignId l = sim_campaignId t)"
proof (induction es arbitrary: t w t' w' outs)
  case Nil
  then show ?case by simp
next
  case (Cons e es)
  show ?case
  proof (cases "interval_set t")
    case False
    then show ?thesis using Cons.prems by simp
  next
    case True
    obtain t1 w1 o1 where tk: "tick e t w = (t1, w1, o1)"
      by (cases "tick e t w") auto
    from True tk show ?thesis
    proof (cases rule: fire_Cons_cases [where mode = mode and es = es])
      case exit
      with Cons.prems show ?thesis by simp
    next
      case (continue t2 w2 os)
      with Cons.prems(1) have eqs: "t' = t2" "w' = w2" "outs = o1 # os"
        by simp_all
      then have o1: "o1 = Returned" and os: "\<forall>out\<in>set os. out = Returned"
        using Cons.prems(2) by simp_all
      from tick_Returned [OF tk [unfolded o1]] obtain l0 l1 where
        step: "db_leads (w_db w1) = db_leads (w_db w) @ [l0, l1]"
        and own: "l_campaignId l0 = sim_campaignId t" "l_campaignId l1 = sim_campaignId t"
        by auto
      have same: "sim_campaignId t1 = sim_campaignId t"
        using tick_counters [of e t w] tk by simp
      from Cons.IH [OF continue(2) os] same obtain new where
        "db_leads (w_db w2) = db_leads (w_db w1) @ new" "length new = 2 * length os"
        "\<forall>l\<in>set new. l_campaignId l = sim_campaignId t"
        by auto
      then show ?thesis
        using step own eqs by (intro exI [of _ "[l0, l1] @ new"]) simp
    qed
  qed
qed

section \<open>The claims about the simulator\<close>

text \<open>
  Claim C1. A new timer fires ten times, with every value of \<^verbatim>\<open>Math.random()\<close> in
  \<open>[0, 1)\<close>, and the tenth firing runs to its end. Then the campaign row of the run
  exists and has status "completed", progress 100, totalPages 10 and a leadsFound from
  10 to 50. This holds for both behaviours of the runtime; where the process keeps
  running, firings before the tenth may have thrown.
\<close>

theorem completed_run_row:
  assumes "length es = 10"
    and "\<forall>e\<in>set es. 0 \<le> rand_found e \<and> rand_found e < 1"
    and "fire mode es (simulateScraping cid uid) w = (t', w', outs)"
    and "last outs = Returned"
  shows "\<exists>c n. find (\<lambda>c. c_id c = cid) (db_campaigns (w_db w')) = Some c
          \<and> c_status c = ''completed'' \<and> c_progress c = Some 100
          \<and> c_totalPages c = Some 10
          \<and> c_leadsFound c = Some n \<and> 10 \<le> n \<and> n \<le> 50"
proof -
  have "interval_set (simulateScraping cid uid)" and "es \<noteq> []"
    using assms(1) by (auto simp: simulateScraping_def)
  then have "outs \<noteq> []"
    using assms(3) by (rule fire_nonempty)
  then have run: "fire KeepRunning es (simulateScraping cid uid) w = (t', w', outs)"
    using fire_last_Returned [OF assms(3)] assms(4) by simp
  from completed_run [OF assms(1) run assms(4)] increments_range [OF assms(2)] assms(1)
  show ?thesis
    by auto
qed

theorem completed_run_row_witness:
  "\<exists>c n. find (\<lambda>c. c_id c = ''c1'')
         (db_campaigns (w_db (fst (snd (fire ExitProcess example_run
                                          (simulateScraping ''c1'' ''u1'') example_world)))))
           = Some c
       \<and> c_status c = ''completed'' \<and> c_progress c = Some 100 \<and> c_totalPages c = Some 10
       \<and> c_leadsFound c = Some n \<and> 10 \<le> n \<and> n \<le> 50"
proof -
  obtain t' w' outs where
    run: "fire ExitProcess example_run (simulateScraping ''c1'' ''u1'') example_world
            = (t', w', outs)"
    by (cases "fire ExitProcess example_run (simulateScraping ''c1'' ''u1'') example_world")
      auto
  have len: "length example_run = 10"
    by (simp add: example_run_def)
  have valid: "\<forall>e\<in>set example_run. 0 \<le> rand_found e \<and> rand_found e < 1"
    by (simp add: example_run_def example_tick_def)
  have "last (snd (snd (fire ExitProcess example_run (simulateScraping ''c1'' ''u1'')
                          example_world))) = Returned"
    by code_simp
  with run have last: "last outs = Returned"
    by simp
  from completed_run_row [OF len valid run last] run show ?thesis
    by simp
qed

text \<open>
  Claim C4, as amended. When the campaign update of a tick returns and the loop of lead
  inserts throws, the callback ends with that error: the counters stay advanced, the rows
  written before the throw stay, nothing is published, and the callback has not cleared
  the interval. What happens to the run is the runtime's choice. Where the process keeps
  running, the next firing runs the callback again. Where an unhandled rejection
  terminates the process, no later tick runs, and the run ends with the exit of the
  server, which closes every connection.
\<close>

theorem failed_insert_keeps_timer:
  assumes up: "updateCampaign (w_db w) (tick_now e) (sim_campaignId t)
        (no_campaign_updates\<lparr>
           pc_progress := Some (Some (round (of_int (currentPage t + 1) / of_int totalPages
                                               * (100 :: rat)))),
           pc_totalPages := Some (Some (currentPage t + 1)),
           pc_leadsFound := Some (Some (leadsFound t + (\<lfloor>rand_found e * 5\<rfloor> + 1))) \<rparr>)
      = Inr (updated, d1)"
    and ins: "generate_leads e (sim_campaignId t) (leadsFound t + (\<lfloor>rand_found e * 5\<rfloor> + 1))
        0 d1 = (Threw err, d2)"
  shows "tick e t w =
        (t\<lparr> currentPage := currentPage t + 1,
             leadsFound := leadsFound t + (\<lfloor>rand_found e * 5\<rfloor> + 1) \<rparr>,
         w\<lparr>w_db := d2\<rparr>, Threw err)
    \<and> (interval_set t \<longrightarrow>
         fire KeepRunning (e # e2 # es) t w =
           (case tick e2 (t\<lparr> currentPage := currentPage t + 1,
                              leadsFound := leadsFound t + (\<lfloor>rand_found e * 5\<rfloor> + 1) \<rparr>)
                   (w\<lparr>w_db := d2\<rparr>) of
              (t2, w2, out2) \<Rightarrow>
                (case fire KeepRunning es t2 w2 of
                   (t3, w3, outs) \<Rightarrow> (t3, w3, Threw err # out2 # outs))))
    \<and> (interval_set t \<longrightarrow>
         fire ExitProcess (e # e2 # es) t w =
           (t\<lparr> currentPage := currentPage t + 1,
                leadsFound := leadsFound t + (\<lfloor>rand_found e * 5\<rfloor> + 1),
                interval_set := False \<rparr>,
            \<lparr> w_db = d2,
              w_clients = map (\<lambda>client. client\<lparr>readyState := CLOSED\<rparr>) (w_clients w) \<rparr>,
            [Threw err]))"
proof -
  have tk: "tick e t w =
        (t\<lparr> currentPage := currentPage t + 1,
             leadsFound := leadsFound t + (\<lfloor>rand_found e * 5\<rfloor> + 1) \<rparr>,
         w\<lparr>w_db := d2\<rparr>, Threw err)"
    using up ins by (simp add: tick_def Let_def)
  then show ?thesis
    by (simp add: process_exit_def split: prod.splits)
qed

theorem failed_insert_keeps_timer_witness:
  "tick (example_tick 1) (simulateScraping ''c1'' ''u1'') (example_world\<lparr>w_db := db_campaign_deleted\<rparr>)
     = ((simulateScraping ''c1'' ''u1'')\<lparr> currentPage := 1, leadsFound := 3 \<rparr>,
        example_world\<lparr>w_db := db_campaign_deleted\<rparr>, Threw ForeignKeyViolation)
   \<and> length (snd (snd (fire KeepRunning [example_tick 1, example_tick 2]
                          (simulateScraping ''c1'' ''u1'')
                          (example_world\<lparr>w_db := db_campaign_deleted\<rparr>)))) = 2
   \<and> snd (snd (fire ExitProcess [example_tick 1, example_tick 2]
                  (simulateScraping ''c1'' ''u1'')
                  (example_world\<lparr>w_db := db_campaign_deleted\<rparr>)))
       = [Threw ForeignKeyViolation]"
proof -
  let ?t = "simulateScraping ''c1'' ''u1''"
  let ?w = "example_world\<lparr>w_db := db_campaign_deleted\<rparr>"
  have inc: "\<lfloor>rand_found (example_tick 1) * 5\<rfloor> + 1 = 3"
    by code_simp
  have up: "updateCampaign (w_db ?w) (tick_now (example_tick 1)) (sim_campaignId ?t)
        (no_campaign_updates\<lparr>
           pc_progress := Some (Some (round (of_int (currentPage ?t + 1) / of_int totalPages
                                               * (100 :: rat)))),
           pc_totalPages := Some (Some (currentPage ?t + 1)),
           pc_leadsFound := Some (Some (leadsFound ?t
                                          + (\<lfloor>rand_found (example_tick 1) * 5\<rfloor> + 1))) \<rparr>)
      = Inr (None, db_campaign_deleted)"
    unfolding round_progress inc
    by (simp add: updateCampaign_keeps_key sendable_def text_ok_def campaign_values_ok_def
        no_campaign_updates_def int4_ok_def simulateScraping_def db_campaign_deleted_def
        db_without_leads_def)
  have ins: "generate_leads (example_tick 1) (sim_campaignId ?t)
        (leadsFound ?t + (\<lfloor>rand_found (example_tick 1) * 5\<rfloor> + 1)) 0 db_campaign_deleted
      = (Threw ForeignKeyViolation, db_campaign_deleted)"
    by (simp add: generate_leads_0 createLead_def sample_lead_def insert_lead_ok_def
        sendable_def text_ok_Nil text_ok_Cons text_ok_number_to_string
        db_campaign_deleted_def db_without_leads_def simulateScraping_def)
  have set: "interval_set ?t"
    by (simp add: simulateScraping_def)
  from failed_insert_keeps_timer [OF up ins, of "example_tick 2" "[]"] set inc
  show ?thesis
    by (simp add: simulateScraping_def db_campaign_deleted_def split: prod.splits)
qed

text \<open>
  The claim as stated fails under either behaviour of the runtime. Where the process
  keeps running: a run started for a campaign that is gone throws at the first insert
  of every tick (the foreign key), and the timer goes on firing, past page 10, with its
  interval still set; and when the first insert of the first firing throws because its
  primary key is taken, the second firing runs to its end, advances the page counter to 2
  and publishes its progress to the user's connection. Where the process exits: no later
  tick runs, but not silently, since the connection of the user is closed with the server.
\<close>

theorem failed_insert_counterexample:
  "snd (snd (fire KeepRunning (example_run @ [example_tick 11]) (simulateScraping ''c1'' ''u1'')
               (example_world\<lparr>w_db := db_campaign_deleted\<rparr>)))
       = replicate 11 (Threw ForeignKeyViolation)
   \<and> currentPage (fst (fire KeepRunning (example_run @ [example_tick 11])
                          (simulateScraping ''c1'' ''u1'')
                          (example_world\<lparr>w_db := db_campaign_deleted\<rparr>))) = 11
   \<and> interval_set (fst (fire KeepRunning (example_run @ [example_tick 11])
                           (simulateScraping ''c1'' ''u1'')
                           (example_world\<lparr>w_db := db_campaign_deleted\<rparr>)))
   \<and> createLead db_with_lead (lead_uuid colliding_tick 0) (tick_now colliding_tick)
       (sample_lead ''c1'' 3 0 (rand_validated colliding_tick 0)) = Inl UniqueViolation
   \<and> snd (snd (fire KeepRunning [colliding_tick, example_tick 2] (simulateScraping ''c1'' ''u1'')
                  (example_world\<lparr>w_db := db_with_lead\<rparr>)))
       = [Threw UniqueViolation, Returned]
   \<and> currentPage (fst (fire KeepRunning [colliding_tick, example_tick 2]
                          (simulateScraping ''c1'' ''u1'')
                          (example_world\<lparr>w_db := db_with_lead\<rparr>))) = 2
   \<and> map sent (w_clients (fst (snd (fire KeepRunning [colliding_tick, example_tick 2]
                                       (simulateScraping ''c1'' ''u1'')
                                       (example_world\<lparr>w_db := db_with_lead\<rparr>)))))
       = [[], [ScrapingProgress ''c1'' 20 2 10 6]]
   \<and> map readyState (w_clients example_world) = [OPEN, OPEN]
   \<and> map readyState (w_clients (fst (snd (fire ExitProcess [colliding_tick, example_tick 2]
                                             (simulateScraping ''c1'' ''u1'')
                                             (example_world\<lparr>w_db := db_with_lead\<rparr>)))))
       = [CLOSED, CLOSED]"
proof -
  have taken: "createLead db_with_lead (lead_uuid colliding_tick 0) (tick_now colliding_tick)
         (sample_lead ''c1'' 3 0 (rand_validated colliding_tick 0)) = Inl UniqueViolation"
    by (simp add: createLead_def insert_lead_ok_def sample_lead_def sendable_def
        text_ok_Nil text_ok_Cons text_ok_number_to_string colliding_tick_def
        db_with_lead_def db_without_leads_def example_lead_def example_campaign_def)
  have gone: "snd (snd (fire KeepRunning (example_run @ [example_tick 11]) (simulateScraping ''c1'' ''u1'')
                 (example_world\<lparr>w_db := db_campaign_deleted\<rparr>)))
         = replicate 11 (Threw ForeignKeyViolation)
     \<and> currentPage (fst (fire KeepRunning (example_run @ [example_tick 11])
                            (simulateScraping ''c1'' ''u1'')
                            (example_world\<lparr>w_db := db_campaign_deleted\<rparr>))) = 11
     \<and> interval_set (fst (fire KeepRunning (example_run @ [example_tick 11])
                             (simulateScraping ''c1'' ''u1'')
                             (example_world\<lparr>w_db := db_campaign_deleted\<rparr>)))"
    by code_simp
  have collided: "snd (snd (fire KeepRunning [colliding_tick, example_tick 2] (simulateScraping ''c1'' ''u1'')
                    (example_world\<lparr>w_db := db_with_lead\<rparr>)))
         = [Threw UniqueViolation, Returned]
     \<and> currentPage (fst (fire KeepRunning [colliding_tick, example_tick 2]
                            (simulateScraping ''c1'' ''u1'')
                            (example_world\<lparr>w_db := db_with_lead\<rparr>))) = 2
     \<and> map sent (w_clients (fst (snd (fire KeepRunning [colliding_tick, example_tick 2]
                                         (simulateScraping ''c1'' ''u1'')
                                         (example_world\<lparr>w_db := db_with_lead\<rparr>)))))
         = [[], [ScrapingProgress ''c1'' 20 2 10 6]]
     \<and> map readyState (w_clients example_world) = [OPEN, OPEN]
     \<and> map readyState (w_clients (fst (snd (fire ExitProcess [colliding_tick, example_tick 2]
                                               (simulateScraping ''c1'' ''u1'')
                                               (example_world\<lparr>w_db := db_with_lead\<rparr>)))))
         = [CLOSED, CLOSED]"
    by code_simp
  from gone taken collided show ?thesis
    by blast
qed

text \<open>
  Claim C5, as amended. A tick that runs to its end, at page \<open>k \<le> 10\<close>, has computed the
  progress \<open>round (k / totalPages * 100) = 10 * k\<close>; the campaign row then holds that
  progress, the page number \<open>k\<close> in its column totalPages, and the counter leadsFound;
  two lead rows have been appended, with the placeholder data and a validation flag that
  is true exactly when the random value drawn for the row exceeds 3/10; and the event
  scraping_progress with the campaign id, the progress, \<open>k\<close>, the constant totalPages and
  the counter has been sent to the open connections tagged with the user id the run was
  started with (followed by scraping_completed when \<open>k = 10\<close>).
\<close>

theorem tick_effects:
  assumes tk: "tick e t w = (t', w', Returned)" and le: "currentPage t < totalPages"
  defines "k \<equiv> currentPage t + 1"
    and "found \<equiv> leadsFound t + (\<lfloor>rand_found e * 5\<rfloor> + 1)"
  shows "round (of_int k / of_int totalPages * (100 :: rat)) = 10 * k
    \<and> (\<exists>c. find (\<lambda>c. c_id c = sim_campaignId t) (db_campaigns (w_db w')) = Some c
          \<and> c_progress c = Some (10 * k) \<and> c_totalPages c = Some k
          \<and> c_leadsFound c = Some found)
    \<and> (\<exists>l0 l1. db_leads (w_db w') = db_leads (w_db w) @ [l0, l1]
          \<and> l_campaignId l0 = sim_campaignId t \<and> l_campaignId l1 = sim_campaignId t
          \<and> l_businessName l0 = ''Business '' @ number_to_string (found + 0)
          \<and> l_businessName l1 = ''Business '' @ number_to_string (found + 1)
          \<and> l_category l0 = Some ''Sample Category'' \<and> l_category l1 = Some ''Sample Category''
          \<and> l_city l0 = Some ''Sample City'' \<and> l_city l1 = Some ''Sample City''
          \<and> l_state l0 = Some ''SC'' \<and> l_state l1 = Some ''SC''
          \<and> l_isValidated l0 = Some (rand_validated e 0 > 3 / 10)
          \<and> l_isValidated l1 = Some (rand_validated e 1 > 3 / 10))
    \<and> w_clients w' =
        (if k < totalPages
         then broadcastToUser (sim_userId t)
                (ScrapingProgress (sim_campaignId t) (10 * k) k totalPages found) (w_clients w)
         else broadcastToUser (sim_userId t) (ScrapingCompleted (sim_campaignId t))
                (broadcastToUser (sim_userId t)
                   (ScrapingProgress (sim_campaignId t) (10 * k) k totalPages found)
                   (w_clients w)))"
proof -
  have r: "round (of_int k / of_int totalPages * (100 :: rat)) = 10 * k"
    by (rule round_progress)
  have last: "\<not> k < totalPages \<Longrightarrow> 10 * k = 100"
    using le by (simp add: k_def totalPages_def)
  have row: "\<exists>c. find (\<lambda>c. c_id c = sim_campaignId t) (db_campaigns (w_db w')) = Some c
          \<and> c_progress c = Some (10 * k) \<and> c_totalPages c = Some k
          \<and> c_leadsFound c = Some found"
    using tick_Returned_row [OF tk] last
    by (auto simp: k_def found_def split: if_splits)
  from tick_Returned [OF tk, unfolded round_progress, folded k_def found_def]
  obtain l0 l1 where
    "w_db w' = (w_db w)\<lparr>
          db_campaigns := map (\<lambda>c. if c_id c = sim_campaignId t
              then (if k < totalPages
                    then set_campaign (no_campaign_updates\<lparr>
                        pc_progress := Some (Some (10 * k)),
                        pc_totalPages := Some (Some k),
                        pc_leadsFound := Some (Some found),
                        pc_updatedAt := Some (Some (Date (tick_now e))) \<rparr>) c
                    else set_campaign (no_campaign_updates\<lparr> pc_status := Some ''completed'',
                        pc_progress := Some (Some 100),
                        pc_updatedAt := Some (Some (Date (tick_now e))) \<rparr>)
                      (set_campaign (no_campaign_updates\<lparr>
                        pc_progress := Some (Some (10 * k)),
                        pc_totalPages := Some (Some k),
                        pc_leadsFound := Some (Some found),
                        pc_updatedAt := Some (Some (Date (tick_now e))) \<rparr>) c))
              else c) (db_campaigns (w_db w)),
          db_leads := db_leads (w_db w) @ [l0, l1] \<rparr>"
    and cl: "w_clients w' =
        (if k < totalPages
         then broadcastToUser (sim_userId t)
                (ScrapingProgress (sim_campaignId t) (10 * k) k totalPages found) (w_clients w)
         else broadcastToUser (sim_userId t) (ScrapingCompleted (sim_campaignId t))
                (broadcastToUser (sim_userId t)
                   (ScrapingProgress (sim_campaignId t) (10 * k) k totalPages found)
                   (w_clients w)))"
    and leads: "l_campaignId l0 = sim_campaignId t" "l_campaignId l1 = sim_campaignId t"
      "l_businessName l0 = ''Business '' @ number_to_string (found + 0)"
      "l_businessName l1 = ''Business '' @ number_to_string (found + 1)"
      "l_category l0 = Some ''Sample Category''" "l_category l1 = Some ''Sample Category''"
      "l_city l0 = Some ''Sample City''" "l_city l1 = Some ''Sample City''"
      "l_state l0 = Some ''SC''" "l_state l1 = Some ''SC''"
      "l_isValidated l0 = Some (rand_validated e 0 > 3 / 10)"
      "l_isValidated l1 = Some (rand_validated e 1 > 3 / 10)"
    by blast
  then have "db_leads (w_db w') = db_leads (w_db w) @ [l0, l1]"
    by simp
  with leads have "\<exists>l0 l1. db_leads (w_db w') = db_leads (w_db w) @ [l0, l1]
          \<and> l_campaignId l0 = sim_campaignId t \<and> l_campaignId l1 = sim_campaignId t
          \<and> l_businessName l0 = ''Business '' @ number_to_string (found + 0)
          \<and> l_businessName l1 = ''Business '' @ number_to_string (found + 1)
          \<and> l_category l0 = Some ''Sample Category'' \<and> l_category l1 = Some ''Sample Category''
          \<and> l_city l0 = Some ''Sample City'' \<and> l_city l1 = Some ''Sample City''
          \<and> l_state l0 = Some ''SC'' \<and> l_state l1 = Some ''SC''
          \<and> l_isValidated l0 = Some (rand_validated e 0 > 3 / 10)
          \<and> l_isValidated l1 = Some (rand_validated e 1 > 3 / 10)"
    by blast
  with r row cl show ?thesis
    by blast
qed

theorem tick_effects_witness:
  "\<exists>c. find (\<lambda>c. c_id c = ''c1'')
         (db_campaigns (w_db (fst (snd (tick (example_tick 1) (simulateScraping ''c1'' ''u1'')
                                          example_world))))) = Some c
       \<and> c_progress c = Some 10 \<and> c_totalPages c = Some 1 \<and> c_leadsFound c = Some 3"
proof -
  obtain t' w' out where
    tk: "tick (example_tick 1) (simulateScraping ''c1'' ''u1'') example_world = (t', w', out)"
    by (cases "tick (example_tick 1) (simulateScraping ''c1'' ''u1'') example_world") auto
  have "snd (snd (tick (example_tick 1) (simulateScraping ''c1'' ''u1'') example_world))
      = Returned"
    by code_simp
  with tk have tk': "tick (example_tick 1) (simulateScraping ''c1'' ''u1'') example_world
      = (t', w', Returned)"
    by simp
  have page: "currentPage (simulateScraping ''c1'' ''u1'') < totalPages"
    by (simp add: simulateScraping_def totalPages_def)
  have inc: "\<lfloor>rand_found (example_tick 1) * 5\<rfloor> + 1 = 3"
    by code_simp
  from tick_effects [OF tk' page] obtain c where
    "find (\<lambda>c. c_id c = sim_campaignId (simulateScraping ''c1'' ''u1''))
       (db_campaigns (w_db w')) = Some c"
    "c_progress c = Some (10 * (currentPage (simulateScraping ''c1'' ''u1'') + 1))"
    "c_totalPages c = Some (currentPage (simulateScraping ''c1'' ''u1'') + 1)"
    "c_leadsFound c = Some (leadsFound (simulateScraping ''c1'' ''u1'')
                              + (\<lfloor>rand_found (example_tick 1) * 5\<rfloor> + 1))"
    by blast
  then show ?thesis
    unfolding inc tk by (intro exI [of _ c]) (simp add: simulateScraping_def)
qed

text \<open>
  The claim as stated fails: after the first tick the column totalPages of the row holds
  1, the page number, and not the total 10. And the user id of a run is that of the user
  who asked for the start, who need not own the campaign.
\<close>

theorem tick_persists_current_page_counterexample:
  "snd (snd (tick (example_tick 1) (simulateScraping ''c1'' ''u1'') example_world)) = Returned
   \<and> map c_totalPages
        (db_campaigns (w_db (fst (snd (tick (example_tick 1) (simulateScraping ''c1'' ''u1'')
                                         example_world))))) = [Some 1]
   \<and> totalPages = 10
   \<and> c_userId example_campaign = ''u1''
   \<and> map sim_userId
        (snd (snd (projr (handle example_env (StartCampaign ''u2'' ''c1'') example_world))))
       = [''u2'']"
  by code_simp

text \<open>
  Claim C10, as amended. A tick that runs to its end adds two lead rows, and a loop of
  inserts that throws has added none or one. When all ten firings of a new timer run to
  their end (random values in \<open>[0, 1)\<close>), the run has appended 20 lead rows, all of
  the campaign, while the stored leadsFound is the sum of the ten random increments, from
  10 to 50; it equals the number of rows created only when that sum is 20.
\<close>

theorem completed_run_counts:
  assumes "length es = 10"
    and "\<forall>e\<in>set es. 0 \<le> rand_found e \<and> rand_found e < 1"
    and "fire mode es (simulateScraping cid uid) w = (t', w', outs)"
    and "\<forall>out\<in>set outs. out = Returned"
  shows "(\<forall>e t w t1 w1. tick e t w = (t1, w1, Returned)
            \<longrightarrow> length (db_leads (w_db w1)) = length (db_leads (w_db w)) + 2)
    \<and> (\<forall>e c found d err d1. generate_leads e c found 0 d = (Threw err, d1)
            \<longrightarrow> length (db_leads d1) = length (db_leads d)
                \<or> length (db_leads d1) = length (db_leads d) + 1)
    \<and> (\<exists>new c n. db_leads (w_db w') = db_leads (w_db w) @ new
          \<and> length new = 20 \<and> (\<forall>l\<in>set new. l_campaignId l = cid)
          \<and> find (\<lambda>c. c_id c = cid) (db_campaigns (w_db w')) = Some c
          \<and> c_leadsFound c = Some n
          \<and> n = sum_list (map (\<lambda>e. \<lfloor>rand_found e * 5\<rfloor> + 1) es)
          \<and> 10 \<le> n \<and> n \<le> 50
          \<and> ((n = int (length new)) = (n = 20)))"
proof -
  have each: "\<forall>e t w t1 w1. tick e t w = (t1, w1, Returned)
            \<longrightarrow> length (db_leads (w_db w1)) = length (db_leads (w_db w)) + 2"
  proof (intro allI impI)
    fix e t w t1 w1
    assume "tick e t w = (t1, w1, Returned)"
    from tick_Returned [OF this] obtain l0 l1 where
      "db_leads (w_db w1) = db_leads (w_db w) @ [l0, l1]"
      by auto
    then show "length (db_leads (w_db w1)) = length (db_leads (w_db w)) + 2"
      by simp
  qed
  have thrown: "\<forall>e c found d err d1. generate_leads e c found 0 d = (Threw err, d1)
            \<longrightarrow> length (db_leads d1) = length (db_leads d)
                \<or> length (db_leads d1) = length (db_leads d) + 1"
  proof (intro allI impI)
    fix e c found d err d1
    assume loop: "generate_leads e c found 0 d = (Threw err, d1)"
    show "length (db_leads d1) = length (db_leads d)
        \<or> length (db_leads d1) = length (db_leads d) + 1"
    proof (cases "createLead d (lead_uuid e 0) (tick_now e)
                    (sample_lead c found 0 (rand_validated e 0))")
      case (Inl first)
      then show ?thesis
        using loop by (simp add: generate_leads_0)
    next
      case (Inr p)
      obtain l0 d0 where p: "p = (l0, d0)"
        by (cases p) auto
      have "d0 = d\<lparr>db_leads := db_leads d @ [l0]\<rparr>"
        using createLead_Inr [OF Inr [unfolded p]] by simp
      moreover have "d1 = d0"
        using loop Inr p by (auto simp: generate_leads_0 split: sum.splits)
      ultimately show ?thesis
        by simp
    qed
  qed
  have "interval_set (simulateScraping cid uid)" and "es \<noteq> []"
    using assms(1) by (auto simp: simulateScraping_def)
  then have nonempty: "outs \<noteq> []"
    using assms(3) by (rule fire_nonempty)
  then have last: "last outs = Returned"
    using assms(4) last_in_set by blast
  have run: "fire KeepRunning es (simulateScraping cid uid) w = (t', w', outs)"
    using fire_last_Returned [OF assms(3) nonempty last] .
  from completed_run [OF assms(1) run last] obtain c where
    row: "find (\<lambda>c. c_id c = cid) (db_campaigns (w_db w')) = Some c"
      "c_leadsFound c = Some (sum_list (map (\<lambda>e. \<lfloor>rand_found e * 5\<rfloor> + 1) es))"
    and lo: "length outs = 10"
    by auto
  from fire_inserts [OF assms(3) assms(4)] lo obtain new where
    new: "db_leads (w_db w') = db_leads (w_db w) @ new" "length new = 20"
      "\<forall>l\<in>set new. l_campaignId l = cid"
    by (auto simp: simulateScraping_def)
  have "\<exists>new c n. db_leads (w_db w') = db_leads (w_db w) @ new
          \<and> length new = 20 \<and> (\<forall>l\<in>set new. l_campaignId l = cid)
          \<and> find (\<lambda>c. c_id c = cid) (db_campaigns (w_db w')) = Some c
          \<and> c_leadsFound c = Some n
          \<and> n = sum_list (map (\<lambda>e. \<lfloor>rand_found e * 5\<rfloor> + 1) es)
          \<and> 10 \<le> n \<and> n \<le> 50
          \<and> ((n = int (length new)) = (n = 20))"
    using row new increments_range [OF assms(2)] assms(1)
    by (intro exI [of _ new] exI [of _ c]
        exI [of _ "sum_list (map (\<lambda>e. \<lfloor>rand_found e * 5\<rfloor> + 1) es)"]) simp
  with each thrown show ?thesis
    by blast
qed

theorem completed_run_counts_witness:
  "\<exists>new c. db_leads (w_db (fst (snd (fire ExitProcess example_run
                                        (simulateScraping ''c1'' ''u1'') example_world))))
           = db_leads (w_db example_world) @ new
       \<and> length new = 20
       \<and> find (\<lambda>c. c_id c = ''c1'')
         (db_campaigns (w_db (fst (snd (fire ExitProcess example_run
                                          (simulateScraping ''c1'' ''u1'') example_world)))))
           = Some c
       \<and> c_leadsFound c = Some 30"
proof -
  obtain t' w' outs where
    run: "fire ExitProcess example_run (simulateScraping ''c1'' ''u1'') example_world
            = (t', w', outs)"
    by (cases "fire ExitProcess example_run (simulateScraping ''c1'' ''u1'') example_world")
      auto
  have len: "length example_run = 10"
    by (simp add: example_run_def)
  have valid: "\<forall>e\<in>set example_run. 0 \<le> rand_found e \<and> rand_found e < 1"
    by (simp add: example_run_def example_tick_def)
  have "snd (snd (fire ExitProcess example_run (simulateScraping ''c1'' ''u1'') example_world))
      = replicate 10 Returned"
    by code_simp
  with run have all: "\<forall>out\<in>set outs. out = Returned"
    by simp
  have total: "sum_list (map (\<lambda>e. \<lfloor>rand_found e * 5\<rfloor> + 1) example_run) = 30"
    by code_simp
  from completed_run_counts [OF len valid run all] run total show ?thesis
    by auto
qed

text \<open>
  The claim as stated fails: not every tick inserts two rows, and not every completed run
  twenty. In a run started for an id that no campaign has, the first insert of the tick
  throws (the foreign key), and the tick has added no row. A tick whose second insert is
  given a primary key that is taken has added one. And where the process keeps running,
  a run of ten firings whose first tick throws at its first insert still completes: the
  tenth firing runs to its end and sets the status completed, with 18 rows added.
\<close>

theorem run_inserts_fewer_counterexample:
  "snd (snd (tick (example_tick 1) (simulateScraping ''c1'' ''u1'')
               (example_world\<lparr>w_db := db_campaign_deleted\<rparr>)))
       = Threw ForeignKeyViolation
   \<and> length (db_leads (w_db (fst (snd (tick (example_tick 1) (simulateScraping ''c1'' ''u1'')
                                         (example_world\<lparr>w_db := db_campaign_deleted\<rparr>))))))
       = length (db_leads db_campaign_deleted)
   \<and> snd (snd (tick late_colliding_tick (simulateScraping ''c1'' ''u1'')
                  (example_world\<lparr>w_db := db_with_lead\<rparr>)))
       = Threw UniqueViolation
   \<and> length (db_leads (w_db (fst (snd (tick late_colliding_tick (simulateScraping ''c1'' ''u1'')
                                         (example_world\<lparr>w_db := db_with_lead\<rparr>))))))
       = length (db_leads db_with_lead) + 1
   \<and> length (colliding_tick # tl example_run) = 10
   \<and> snd (snd (fire KeepRunning (colliding_tick # tl example_run)
                  (simulateScraping ''c1'' ''u1'') (example_world\<lparr>w_db := db_with_lead\<rparr>)))
       = Threw UniqueViolation # replicate 9 Returned
   \<and> map c_status
        (db_campaigns (w_db (fst (snd (fire KeepRunning (colliding_tick # tl example_run)
                                         (simulateScraping ''c1'' ''u1'')
                                         (example_world\<lparr>w_db := db_with_lead\<rparr>))))))
       = [''completed'']
   \<and> length (db_leads (w_db (fst (snd (fire KeepRunning (colliding_tick # tl example_run)
                                         (simulateScraping ''c1'' ''u1'')
                                         (example_world\<lparr>w_db := db_with_lead\<rparr>))))))
       = length (db_leads db_with_lead) + 18"
  by code_simp

end
